theory Spec2Isabelle
  imports Complex_Main "HOL-Library.Sublist"
begin

section \<open>Data model of script.js\<close>

text \<open>
  The script draws on a Leaflet map and keeps its session in module-level variables.
  The model makes that state explicit.

  \<^item> A JavaScript Number is an IEEE-754 double. The finite doubles are modelled as the
    reals they denote, and each arithmetic operation of the source as the exact operation
    followed by rounding to the nearest double (\<open>toDouble\<close>, below). Infinities, NaN
    and the sign of zero are not represented: the resolver is taken to deliver finite
    latitudes and longitudes (the source applies \<^verbatim>\<open>parseFloat\<close> to the fields of
    the first row), and a result so large that the engine makes it an infinity (a
    magnitude of about \<open>2 ^ 1024\<close>) is outside the model.
  \<^item> A JavaScript string is a \<^typ>\<open>string\<close>, each character standing for a code unit
    below 256. Code points outside that range occur in the source only as pictographs
    inside markup; they are kept as \<open>Glyph\<close> nodes carrying the code point.
  \<^item> Markup written to \<^verbatim>\<open>innerHTML\<close> or to a popup is a list of nodes; the line
    breaks and indentation of the template literals, which a browser collapses, are
    left out.
  \<^item> A Leaflet layer object is a handle, a natural number given out when the object
    is created, into a store of layer objects; the map holds the list of the handles
    currently shown. Popups are part of their marker, not layers of their own.
\<close>

subsection \<open>Numbers\<close>

text \<open>
  Rounding to the nearest double, ties to even. A double has 53 significant bits: in the
  binade of \<open>x\<close>, where \<open>2 ^ e \<le> \<bar>x\<bar> < 2 ^ (e + 1)\<close>, neighbouring doubles are
  \<open>2 ^ (e - 52)\<close> apart; below \<open>2 ^ - 1022\<close> the spacing stays that of the binade
  \<open>- 1022\<close> (subnormal numbers).
\<close>

definition binade :: "real \<Rightarrow> int" where
  "binade x = max \<lfloor>log 2 \<bar>x\<bar>\<rfloor> (- 1022)"

definition ulp :: "real \<Rightarrow> real" where
  "ulp x = 2 powi (binade x - 52)"

definition roundTiesToEven :: "real \<Rightarrow> int" where
  "roundTiesToEven y =
     (if y - of_int \<lfloor>y\<rfloor> < 1 / 2 then \<lfloor>y\<rfloor>
      else if 1 / 2 < y - of_int \<lfloor>y\<rfloor> then \<lfloor>y\<rfloor> + 1
      else if even \<lfloor>y\<rfloor> then \<lfloor>y\<rfloor> else \<lfloor>y\<rfloor> + 1)"

definition toDouble :: "real \<Rightarrow> real" where
  "toDouble x = (if x = 0 then 0 else of_int (roundTiesToEven (x / ulp x)) * ulp x)"

text \<open>
  The operators \<^verbatim>\<open>+\<close>, \<^verbatim>\<open>-\<close>, \<^verbatim>\<open>*\<close> and \<^verbatim>\<open>/\<close> on Numbers. A decimal
  literal of the source, such as \<^verbatim>\<open>0.15\<close>, denotes the double nearest to it; small
  integers are doubles themselves. The source divides by the constant 2 only.
\<close>

definition jsAdd :: "real \<Rightarrow> real \<Rightarrow> real" where
  "jsAdd x y = toDouble (x + y)"

definition jsSub :: "real \<Rightarrow> real \<Rightarrow> real" where
  "jsSub x y = toDouble (x - y)"

definition jsMul :: "real \<Rightarrow> real \<Rightarrow> real" where
  "jsMul x y = toDouble (x * y)"

definition jsDiv :: "real \<Rightarrow> real \<Rightarrow> real" where
  "jsDiv x y = toDouble (x / y)"

subsection \<open>Places, markup, layers and the state of the page\<close>

type_synonym coord = "real \<times> real"

record place =
  lat :: real
  lon :: real
  display :: string

datatype attr = Class string | Style string

datatype html =
    Text string
  | Glyph nat
  | Bold "html list"
  | Italic "html list"
  | Br
  | Div attr "html list"

datatype icon = DefaultIcon | DivIcon "html list"

datatype layer =
    TileLayer string
  | Marker coord icon "html list option" bool
  | Polyline "coord list" string nat "html list option"

datatype view = SetView coord nat | FitBounds "nat list"

record state =
  layers :: "nat list"
  objs :: "nat \<Rightarrow> layer option"
  nextId :: nat
  view :: view
  routeA :: "nat option"
  routeB :: "nat option"
  startMarker :: "nat option"
  endMarker :: "nat option"
  hazardMarkers :: "nat list"
  result :: "html list"
  alerts :: "string list"
  requests :: "string list"

text \<open>
  The state after the top-level statements of the script (lines 4 to 16): the map is
  centred on Nepal, the tile layer is on the map, no session variable is set.
  \<open>result\<close> is the content of the page element of that name, \<open>alerts\<close> the messages
  shown by \<^verbatim>\<open>alert\<close>, \<open>requests\<close> the queries sent to the geocoding
  service, oldest first.
\<close>

definition init :: state where
  "init = \<lparr> layers = [0],
            objs = [0 \<mapsto> TileLayer ''https://{s}.tile.openstreetmap.org/{z}/{x}/{y}.png''],
            nextId = 1,
            view = SetView (toDouble 28.3949, toDouble 84.1240) 7,
            routeA = None, routeB = None, startMarker = None, endMarker = None,
            hazardMarkers = [],
            result = [], alerts = [], requests = [] \<rparr>"

subsection \<open>The map surface\<close>

text \<open>
  Creating a layer object allocates a fresh handle. \<^verbatim>\<open>addTo(map)\<close> shows a
  layer unless it is shown already; \<^verbatim>\<open>map.removeLayer\<close> hides it and does
  nothing for a layer that is not shown.
\<close>

definition newLayer :: "layer \<Rightarrow> state \<Rightarrow> nat \<times> state" where
  "newLayer l s = (nextId s, s\<lparr> objs := (objs s)(nextId s \<mapsto> l), nextId := Suc (nextId s) \<rparr>)"

definition addTo :: "nat \<Rightarrow> state \<Rightarrow> state" where
  "addTo h s = (if h \<in> set (layers s) then s else s\<lparr> layers := layers s @ [h] \<rparr>)"

definition removeLayer :: "nat \<Rightarrow> state \<Rightarrow> state" where
  "removeLayer h s = s\<lparr> layers := removeAll h (layers s) \<rparr>"

fun withPopup :: "html list \<Rightarrow> layer \<Rightarrow> layer" where
  "withPopup c (Marker p i _ opened) = Marker p i (Some c) opened"
| "withPopup c l = l"

fun withOpenPopup :: "layer \<Rightarrow> layer" where
  "withOpenPopup (Marker p i (Some c) _) = Marker p i (Some c) True"
| "withOpenPopup l = l"

fun withClick :: "html list \<Rightarrow> layer \<Rightarrow> layer" where
  "withClick c (Polyline ps col w _) = Polyline ps col w (Some c)"
| "withClick c l = l"

definition bindPopup :: "nat \<Rightarrow> html list \<Rightarrow> state \<Rightarrow> state" where
  "bindPopup h c s = s\<lparr> objs := (objs s)(h := map_option (withPopup c) (objs s h)) \<rparr>"

definition openPopup :: "nat \<Rightarrow> state \<Rightarrow> state" where
  "openPopup h s = s\<lparr> objs := (objs s)(h := map_option withOpenPopup (objs s h)) \<rparr>"

definition onClick :: "nat \<Rightarrow> html list \<Rightarrow> state \<Rightarrow> state" where
  "onClick h c s = s\<lparr> objs := (objs s)(h := map_option (withClick c) (objs s h)) \<rparr>"

subsection \<open>Simulated hazards and their icons (lines 21 to 51)\<close>

record hazard =
  type :: string
  reason :: string

definition simulatedHazards :: "hazard list" where
  "simulatedHazards =
     [ \<lparr> type = ''Flooding'', reason = ''Heavy rainfall reported'' \<rparr>,
       \<lparr> type = ''Construction'', reason = ''Ongoing road maintenance'' \<rparr>,
       \<lparr> type = ''Congestion'', reason = ''High traffic volume'' \<rparr> ]"

definition icons :: "(string \<times> html list) list" where
  "icons = [ (''Flooding'', [Glyph 0x1F30A]),
             (''Construction'', [Glyph 0x1F6A7]),
             (''Congestion'', [Glyph 0x1F697]),
             (''Accident'', [Glyph 0x1F4A5]) ]"

definition iconStyle :: string where
  "iconStyle = ''font-size:22px; background:white; border:2px solid #ff4d4d; border-radius:50%; width:34px; height:34px; display:flex; align-items:center; justify-content:center;''"

definition getHazardIcon :: "string \<Rightarrow> icon" where
  "getHazardIcon t =
     DivIcon [Div (Style iconStyle)
                (case map_of icons t of Some g \<Rightarrow> g | None \<Rightarrow> [Glyph 0x26A0, Glyph 0xFE0F])]"

subsection \<open>Geocoding (lines 56 to 78)\<close>

text \<open>
  The geocoding service is outside the program. A call of \<^verbatim>\<open>geocodeLocation\<close>
  sends one request, whose query is the place name followed by \<open>, Nepal\<close>, and
  suspends until the response arrives. A response is either a failure of the request
  itself (the \<^verbatim>\<open>fetch\<close> or the decoding of its body throws, with some message)
  or the list of rows found. No row makes the function throw the error of line 68; else
  the first row is returned. The latitude and the longitude of a row are the Numbers
  that \<^verbatim>\<open>parseFloat\<close> makes of its fields (lines 74 and 75), taken to be
  finite: a field that is no numeral, of which \<^verbatim>\<open>parseFloat\<close> makes NaN and on
  which the map library throws when the search hands it over, is not represented, and
  the statements below speak of numeric coordinates only.
\<close>

record row =
  row_lat :: real
  row_lon :: real
  display_name :: string

datatype response = Failure string | Rows "row list"

definition request :: "string \<Rightarrow> state \<Rightarrow> state" where
  "request place s = s\<lparr> requests := requests s @ [place @ '', Nepal''] \<rparr>"

definition notFound :: string where
  "notFound = ''Location not found in Nepal. Try a nearby area, road, or landmark.''"

fun geocodeLocation :: "response \<Rightarrow> string + place" where
  "geocodeLocation (Failure m) = Inl m"
| "geocodeLocation (Rows []) = Inl notFound"
| "geocodeLocation (Rows (d # _)) =
     Inr \<lparr> lat = row_lat d, lon = row_lon d, display = display_name d \<rparr>"

subsection \<open>Cleanup (lines 189 to 198)\<close>

definition removeIfSet :: "nat option \<Rightarrow> state \<Rightarrow> state" where
  "removeIfSet v s = (case v of Some h \<Rightarrow> removeLayer h s | None \<Rightarrow> s)"

definition clearMap :: "state \<Rightarrow> state" where
  "clearMap s =
     (let s1 = removeIfSet (routeA s) s;
          s2 = removeIfSet (routeB s1) s1;
          s3 = removeIfSet (startMarker s2) s2;
          s4 = removeIfSet (endMarker s3) s3;
          s5 = fold removeLayer (hazardMarkers s4) s4
      in s5\<lparr> hazardMarkers := [] \<rparr>)"

subsection \<open>The main function (lines 83 to 184)\<close>

text \<open>
  \<^verbatim>\<open>String.prototype.trim\<close> removes white space and line terminators at both
  ends; below code unit 256 these are tab, line feed, vertical tab, form feed, carriage
  return, space and no-break space.
\<close>

definition isWhiteSpace :: "char \<Rightarrow> bool" where
  "isWhiteSpace c = (of_char c \<in> {9, 10, 11, 12, 13, 32, 160 :: nat})"

definition trim :: "string \<Rightarrow> string" where
  "trim t = rev (dropWhile isWhiteSpace (rev (dropWhile isWhiteSpace t)))"

definition midLat :: "place \<Rightarrow> place \<Rightarrow> real" where
  "midLat start endP = jsDiv (jsAdd (lat start) (lat endP)) 2"

definition midLon :: "place \<Rightarrow> place \<Rightarrow> real" where
  "midLon start endP = jsDiv (jsAdd (lon start) (lon endP)) 2"

definition routeAcoords :: "place \<Rightarrow> place \<Rightarrow> coord list" where
  "routeAcoords start endP =
     [ (lat start, lon start),
       (jsAdd (midLat start endP) (toDouble 0.15), midLon start endP),
       (lat endP, lon endP) ]"

definition routeBcoords :: "place \<Rightarrow> place \<Rightarrow> coord list" where
  "routeBcoords start endP =
     [ (lat start, lon start),
       (jsSub (midLat start endP) (toDouble 0.15), midLon start endP),
       (lat endP, lon endP) ]"

definition hazardPopup :: "hazard \<Rightarrow> html list" where
  "hazardPopup hz =
     [Bold [Text (type hz)], Br, Text (reason hz), Br, Italic [Text ''Simulated condition'']]"

definition addHazard :: "real \<Rightarrow> real \<Rightarrow> nat \<times> hazard \<Rightarrow> state \<Rightarrow> state" where
  "addHazard mLat mLon ih s =
     (case ih of (i, hz) \<Rightarrow>
        (let (marker, s1) =
               newLayer (Marker (jsAdd mLat (jsMul (real i) (toDouble 0.05)),
                                 jsSub mLon (jsMul (real i) (toDouble 0.05)))
                                (getHazardIcon (type hz)) None False) s;
             s2 = addTo marker s1;
             s3 = bindPopup marker (hazardPopup hz) s2
         in s3\<lparr> hazardMarkers := hazardMarkers s3 @ [marker] \<rparr>))"

definition routesFound :: "html list" where
  "routesFound =
     [ Bold [Text ''Two route options found:''], Br, Br,
       Glyph 0x1F534, Text '' '', Bold [Text ''Route A''],
       Text '': Faster but riskier due to road conditions.'', Br,
       Glyph 0x1F7E2, Text '' '', Bold [Text ''Route B''],
       Text '': Safer and more reliable.'', Br, Br,
       Text ''Click a route on the map to select it.'' ]"

definition routeASelected :: "html list" where
  "routeASelected =
     [ Div (Class ''route-selected'')
         [ Glyph 0x1F534, Text '' '', Bold [Text ''Route A Selected''], Br,
           Text ''Recommended when speed is critical.'' ] ]"

definition routeBSelected :: "html list" where
  "routeBSelected =
     [ Div (Class ''route-selected'')
         [ Glyph 0x1F7E2, Text '' '', Bold [Text ''Route B Selected''], Br,
           Text ''Recommended for safer and consistent travel.'' ] ]"

definition uncertainty :: "string \<Rightarrow> html list" where
  "uncertainty message =
     [ Div (Class ''uncertainty-box'')
         [ Glyph 0x26A0, Glyph 0xFE0F, Text '' '', Text message, Br, Br,
           Text ''Try examples like:'', Br,
           Glyph 0x2022, Text '' Biratnagar Bus Park'', Br,
           Glyph 0x2022, Text '' Main Road Biratnagar'', Br,
           Glyph 0x2022, Text '' Pokhara Lakeside'' ] ]"

text \<open>
  Lines 99 to 172, which run without suspension once both places are resolved.
\<close>

definition install :: "place \<Rightarrow> place \<Rightarrow> state \<Rightarrow> state" where
  "install start endP s =
     (let s1 = s\<lparr> view := SetView (lat start, lon start) 11 \<rparr>;
          (m1, s2) = newLayer (Marker (lat start, lon start) DefaultIcon None False) s1;
          s3 = openPopup m1
                 (bindPopup m1 [Glyph 0x1F4CD, Text '' Start'', Br, Text (display start)]
                    (addTo m1 s2));
          s4 = s3\<lparr> startMarker := Some m1 \<rparr>;
          (m2, s5) = newLayer (Marker (lat endP, lon endP) DefaultIcon None False) s4;
          s6 = bindPopup m2 [Glyph 0x1F3C1, Text '' Destination'', Br, Text (display endP)]
                 (addTo m2 s5);
          s7 = s6\<lparr> endMarker := Some m2 \<rparr>;
          (ra, s8) = newLayer (Polyline (routeAcoords start endP) ''red'' 6 None) s7;
          s9 = (addTo ra s8)\<lparr> routeA := Some ra \<rparr>;
          (rb, s10) = newLayer (Polyline (routeBcoords start endP) ''green'' 6 None) s9;
          s11 = (addTo rb s10)\<lparr> routeB := Some rb \<rparr>;
          s12 = s11\<lparr> view := FitBounds [ra, rb] \<rparr>;
          s13 = fold (addHazard (midLat start endP) (midLon start endP))
                  (enumerate 0 simulatedHazards) s12;
          s14 = s13\<lparr> result := routesFound \<rparr>;
          s15 = onClick ra routeASelected s14
      in onClick rb routeBSelected s15)"

text \<open>
  The function suspends twice, once for each place. \<open>pending\<close> is what a suspended call
  still holds: the trimmed destination name while the start is being resolved, the
  resolved start while the destination is being resolved. Each of \<open>findRoute_begin\<close>
  and \<open>resume\<close> is one stretch of the function that runs without interruption.
  An error thrown inside the \<^verbatim>\<open>try\<close> block is caught and its message shown.
\<close>

datatype pending = Finished | AwaitStart string | AwaitEnd place

definition findRoute_begin :: "string \<Rightarrow> string \<Rightarrow> state \<Rightarrow> pending \<times> state" where
  "findRoute_begin startText endText s =
     (let startName = trim startText; endName = trim endText
      in if startName = [] \<or> endName = []
         then (Finished,
               s\<lparr> alerts := alerts s @ [''Please enter both start and destination locations.''] \<rparr>)
         else (AwaitStart endName, request startName (clearMap s)))"

fun resume :: "pending \<Rightarrow> response \<Rightarrow> state \<Rightarrow> pending \<times> state" where
  "resume Finished r s = (Finished, s)"
| "resume (AwaitStart endName) r s =
     (case geocodeLocation r of
        Inl message \<Rightarrow> (Finished, s\<lparr> result := uncertainty message \<rparr>)
      | Inr start \<Rightarrow> (AwaitEnd start, request endName s))"
| "resume (AwaitEnd start) r s =
     (case geocodeLocation r of
        Inl message \<Rightarrow> (Finished, s\<lparr> result := uncertainty message \<rparr>)
      | Inr endP \<Rightarrow> (Finished, install start endP s))"

text \<open>
  One search run from its start to its end with nothing in between: \<open>r1\<close> answers the
  request for the start, \<open>r2\<close> the request for the destination (when it is sent).
\<close>

definition findRoute :: "string \<Rightarrow> string \<Rightarrow> response \<Rightarrow> response \<Rightarrow> state \<Rightarrow> state" where
  "findRoute startText endText r1 r2 s =
     (let (p1, s1) = findRoute_begin startText endText s;
          (p2, s2) = resume p1 r1 s1;
          (p3, s3) = resume p2 r2 s2
      in s3)"

text \<open>
  A click on a layer that is shown runs the handler registered on it, which replaces
  the content of the result element.
\<close>

definition click :: "nat \<Rightarrow> state \<Rightarrow> state" where
  "click h s =
     (if h \<in> set (layers s)
      then (case objs s h of
              Some (Polyline ps col w (Some c)) \<Rightarrow> s\<lparr> result := c \<rparr>
            | _ \<Rightarrow> s)
      else s)"

subsection \<open>The event loop\<close>

text \<open>
  JavaScript runs one stretch of code at a time. A press of the search button starts a
  call of \<^verbatim>\<open>findRoute\<close>; the arrival of a response resumes the call that
  waits for it. Calls are numbered in the order they were started; \<open>step\<close> keeps
  what each of them still waits for.
\<close>

datatype event = Search string string | Response nat response

fun step :: "event \<Rightarrow> pending list \<times> state \<Rightarrow> pending list \<times> state" where
  "step (Search startText endText) (ps, s) =
     (case findRoute_begin startText endText s of (p, s') \<Rightarrow> (ps @ [p], s'))"
| "step (Response k r) (ps, s) =
     (if k < length ps
      then (case resume (ps ! k) r s of (p, s') \<Rightarrow> (ps[k := p], s'))
      else (ps, s))"

definition run :: "event list \<Rightarrow> pending list \<times> state" where
  "run es = fold step es ([], init)"

section \<open>Notions used in the statements\<close>

text \<open>
  The handles held by the session variables, the condition that every handle on the
  map has been allocated (which makes a new handle differ from all of them), and the
  text a piece of markup displays (pictographs left out).
\<close>

definition tracked :: "state \<Rightarrow> nat set" where
  "tracked s = set_option (routeA s) \<union> set_option (routeB s) \<union> set_option (startMarker s)
     \<union> set_option (endMarker s) \<union> set (hazardMarkers s)"

definition fresh :: "state \<Rightarrow> bool" where
  "fresh s = (\<forall>h \<in> set (layers s). h < nextId s)"

fun textContent :: "html \<Rightarrow> string" where
  "textContent (Text t) = t"
| "textContent (Glyph g) = []"
| "textContent (Bold xs) = concat (map textContent xs)"
| "textContent (Italic xs) = concat (map textContent xs)"
| "textContent Br = []"
| "textContent (Div a xs) = concat (map textContent xs)"

definition placeOf :: "row \<Rightarrow> place" where
  "placeOf d = \<lparr> lat = row_lat d, lon = row_lon d, display = display_name d \<rparr>"

fun isPolyline :: "layer option \<Rightarrow> bool" where
  "isPolyline (Some (Polyline ps col w c)) = True"
| "isPolyline _ = False"

text \<open>
  The resolver rows of the end-to-end example: Pokhara at (28.2096, 83.9856) and
  Kathmandu at (27.7172, 85.3240), as the doubles that \<^verbatim>\<open>parseFloat\<close> makes of
  these numerals; two more places for a second search.
\<close>

definition pokhara :: row where
  "pokhara = \<lparr> row_lat = toDouble 28.2096, row_lon = toDouble 83.9856, display_name = ''Pokhara'' \<rparr>"

definition kathmandu :: row where
  "kathmandu = \<lparr> row_lat = toDouble 27.7172, row_lon = toDouble 85.3240, display_name = ''Kathmandu'' \<rparr>"

definition biratnagar :: row where
  "biratnagar = \<lparr> row_lat = toDouble 26.4525, row_lon = toDouble 87.2718, display_name = ''Biratnagar'' \<rparr>"

definition dharan :: row where
  "dharan = \<lparr> row_lat = toDouble 26.8065, row_lon = toDouble 87.2846, display_name = ''Dharan'' \<rparr>"

text \<open>
  A row with a latitude above 90 and a longitude above 180, as a resolver could deliver
  it: the program does not look at the range of what it receives.
\<close>

definition outOfRange :: row where
  "outOfRange = \<lparr> row_lat = 100, row_lon = 200, display_name = ''Nowhere'' \<rparr>"

text \<open>
  Two more rows: one at latitude and longitude 1, and one at latitude \<open>2 ^ 53\<close>, where
  neighbouring doubles are 2 apart.
\<close>

definition unitRow :: row where
  "unitRow = \<lparr> row_lat = 1, row_lon = 1, display_name = ''One'' \<rparr>"

definition hugeRow :: row where
  "hugeRow = \<lparr> row_lat = 2 ^ 53, row_lon = 0, display_name = ''Far'' \<rparr>"

text \<open>
  Two notions of the specification. A coordinate is valid when its latitude lies in
  [-90, 90] and its longitude in [-180, 180]; a path has zero length when all its points
  coincide.
\<close>

definition validCoordinate :: "coord \<Rightarrow> bool" where
  "validCoordinate c = (- 90 \<le> fst c \<and> fst c \<le> 90 \<and> - 180 \<le> snd c \<and> snd c \<le> 180)"

definition zeroLength :: "coord list \<Rightarrow> bool" where
  "zeroLength ps = list_all (\<lambda>p. p = hd ps) ps"

text \<open>
  A schedule in which a second search is started while the first still waits for its
  start place, and the second receives both its responses first.
\<close>

definition overtaken :: "event list" where
  "overtaken =
     [ Search ''Pokhara'' ''Kathmandu'',
       Search ''Biratnagar'' ''Dharan'',
       Response 1 (Rows [biratnagar]),
       Response 1 (Rows [dharan]) ]"

section \<open>Lemmas about rounding\<close>

text \<open>
  The binade of a number is found from two powers of two that enclose it, which makes
  \<open>toDouble\<close> computable at a given number; and rounding moves a number by at most
  half the spacing of the doubles around it.
\<close>

lemma floor_log2_eq:
  assumes "2 powi e \<le> \<bar>x\<bar>" and "\<bar>x\<bar> < 2 powi (e + 1)"
  shows "\<lfloor>log 2 \<bar>x\<bar>\<rfloor> = e"
proof -
  have pos: "0 < \<bar>x\<bar>"
    using assms(1) by (smt (verit) zero_less_power_int)
  have p: "(2::real) powr of_int e = 2 powi e" "(2::real) powr of_int (e + 1) = 2 powi (e + 1)"
    by (rule powr_real_of_int'; simp)+
  have "\<lfloor>log 2 \<bar>x\<bar>\<rfloor> = e \<longleftrightarrow> 2 powr of_int e \<le> \<bar>x\<bar> \<and> \<bar>x\<bar> < 2 powr of_int (e + 1)"
    by (rule floor_log_eq_powr_iff[OF pos]) simp
  then show ?thesis
    unfolding p using assms by simp
qed

lemma binade_eq:
  assumes "2 powi e \<le> \<bar>x\<bar>" and "\<bar>x\<bar> < 2 powi (e + 1)" and "- 1022 \<le> e"
  shows "binade x = e"
  using floor_log2_eq[OF assms(1,2)] assms(3) by (simp add: binade_def)

lemma floor_log2_le:
  assumes "x \<noteq> 0" and "\<bar>x\<bar> < 2 powi (k + 1)"
  shows "\<lfloor>log 2 \<bar>x\<bar>\<rfloor> \<le> k"
proof -
  have pos: "0 < \<bar>x\<bar>" using assms(1) by simp
  have p: "(2::real) powr of_int (k + 1) = 2 powi (k + 1)"
    by (rule powr_real_of_int') simp_all
  have "log 2 \<bar>x\<bar> < of_int (k + 1) \<longleftrightarrow> \<bar>x\<bar> < 2 powr of_int (k + 1)"
    by (rule log_less_iff[OF _ pos]) simp
  then have "log 2 \<bar>x\<bar> < of_int (k + 1)"
    unfolding p using assms(2) by simp
  then have "\<lfloor>log 2 \<bar>x\<bar>\<rfloor> < k + 1"
    by (simp only: floor_less_iff)
  then show ?thesis
    by simp
qed

lemma ulp_pos: "0 < ulp x"
  by (simp add: ulp_def)

lemma ulp_le:
  assumes "x \<noteq> 0" and "\<bar>x\<bar> < 2 powi (k + 1)" and "- 1022 \<le> k"
  shows "ulp x \<le> 2 powi (k - 52)"
proof -
  have "binade x \<le> k"
    using floor_log2_le[OF assms(1,2)] assms(3) by (simp add: binade_def)
  then show ?thesis
    unfolding ulp_def by (intro power_int_increasing) simp_all
qed

lemma roundTiesToEven_err: "\<bar>of_int (roundTiesToEven y) - y\<bar> \<le> 1 / 2"
  unfolding roundTiesToEven_def by (auto; linarith)

lemma toDouble_err: "\<bar>toDouble x - x\<bar> \<le> ulp x / 2"
proof (cases "x = 0")
  case True
  then show ?thesis using ulp_pos[of x] by (simp add: toDouble_def)
next
  case False
  have "\<bar>of_int (roundTiesToEven (x / ulp x)) - x / ulp x\<bar> \<le> 1 / 2"
    by (rule roundTiesToEven_err)
  then have "\<bar>of_int (roundTiesToEven (x / ulp x)) - x / ulp x\<bar> * ulp x \<le> 1 / 2 * ulp x"
    using ulp_pos[of x] by (intro mult_right_mono) simp_all
  moreover have "\<bar>of_int (roundTiesToEven (x / ulp x)) - x / ulp x\<bar> * ulp x
      = \<bar>of_int (roundTiesToEven (x / ulp x)) * ulp x - x\<bar>"
  proof -
    have "\<bar>of_int (roundTiesToEven (x / ulp x)) - x / ulp x\<bar> * ulp x
        = \<bar>(of_int (roundTiesToEven (x / ulp x)) - x / ulp x) * ulp x\<bar>"
      using ulp_pos[of x] by (simp add: abs_mult)
    also have "(of_int (roundTiesToEven (x / ulp x)) - x / ulp x) * ulp x
        = of_int (roundTiesToEven (x / ulp x)) * ulp x - x"
      using ulp_pos[of x] by (simp add: left_diff_distrib)
    finally show ?thesis .
  qed
  ultimately show ?thesis using False by (simp add: toDouble_def)
qed

lemma toDouble_eval:
  assumes "2 powi e \<le> \<bar>x\<bar>" and "\<bar>x\<bar> < 2 powi (e + 1)" and "- 1022 \<le> e"
  shows "toDouble x = of_int (roundTiesToEven (x / 2 powi (e - 52))) * 2 powi (e - 52)"
proof -
  have "x \<noteq> 0" using assms(1) by (smt (verit) zero_less_power_int)
  then show ?thesis by (simp add: toDouble_def ulp_def binade_eq[OF assms])
qed

lemma toDouble_near:
  assumes "\<bar>x\<bar> < 256"
  shows "\<bar>toDouble x - x\<bar> \<le> 1 / 2 ^ 46"
proof (cases "x = 0")
  case True
  then show ?thesis by (simp add: toDouble_def)
next
  case False
  have "ulp x \<le> 2 powi (7 - 52)"
    using False assms by (intro ulp_le) simp_all
  then have "ulp x / 2 \<le> 1 / 2 ^ 46"
    by simp
  with toDouble_err[of x] show ?thesis by linarith
qed

text \<open>Some doubles: 0, 1 and 2 are doubles, 0.15 and 0.3 are not.\<close>

lemma toDouble_0: "toDouble 0 = 0"
  by (simp add: toDouble_def)

lemma toDouble_1: "toDouble 1 = 1"
  by (subst toDouble_eval[where e = "0"]) (simp_all add: roundTiesToEven_def)

lemma toDouble_2: "toDouble 2 = 2"
  by (subst toDouble_eval[where e = "1"]) (simp_all add: roundTiesToEven_def)

lemma toDouble_015: "toDouble 0.15 = 5404319552844595 / 2 ^ 55"
  by (subst toDouble_eval[where e = "- 3"]) (simp_all add: roundTiesToEven_def)

lemma toDouble_03: "toDouble 0.3 = 5404319552844595 / 2 ^ 54"
  by (subst toDouble_eval[where e = "- 2"]) (simp_all add: roundTiesToEven_def)

text \<open>
  The two interior latitudes of lines 118 and 124, for latitudes between -90 and 90:
  the one of route B is below the one of route A, and they are 0.3 apart up to the
  rounding of the five operations.
\<close>

lemma offsets_apart:
  assumes "\<bar>a\<bar> \<le> 90" and "\<bar>b\<bar> \<le> 90"
  shows "jsSub (jsDiv (jsAdd a b) 2) (toDouble 0.15) < jsAdd (jsDiv (jsAdd a b) 2) (toDouble 0.15)"
    and "\<bar>jsAdd (jsDiv (jsAdd a b) 2) (toDouble 0.15)
          - jsSub (jsDiv (jsAdd a b) 2) (toDouble 0.15) - 0.3\<bar> \<le> 1 / 2 ^ 44"
    and "\<bar>jsAdd (jsDiv (jsAdd a b) 2) (toDouble 0.15) - ((a + b) / 2 + 3 / 20)\<bar> \<le> 1 / 2 ^ 44"
    and "\<bar>jsSub (jsDiv (jsAdd a b) 2) (toDouble 0.15) - ((a + b) / 2 - 3 / 20)\<bar> \<le> 1 / 2 ^ 44"
proof -
  define s where "s = toDouble (a + b)"
  define m where "m = toDouble (s / 2)"
  define c where "c = toDouble 0.15"
  define k :: real where "k = 1 / 2 ^ 46"
  have k: "0 < k" "k \<le> 1 / 1000" "1 / 2 ^ 44 = 4 * k"
    by (simp_all add: k_def)
  have s: "\<bar>s - (a + b)\<bar> \<le> k"
    unfolding s_def k_def using assms by (intro toDouble_near) linarith
  have m: "\<bar>m - s / 2\<bar> \<le> k"
    unfolding m_def k_def using s k(2) assms by (intro toDouble_near) linarith
  have c: "\<bar>c - 3 / 20\<bar> \<le> k"
    using toDouble_near[of "0.15"] by (simp add: c_def k_def)
  have A: "\<bar>toDouble (m + c) - (m + c)\<bar> \<le> k"
    unfolding k_def using s m c k(2) assms by (intro toDouble_near) linarith
  have B: "\<bar>toDouble (m - c) - (m - c)\<bar> \<le> k"
    unfolding k_def using s m c k(2) assms by (intro toDouble_near) linarith
  have eq: "jsAdd (jsDiv (jsAdd a b) 2) (toDouble 0.15) = toDouble (m + c)"
        "jsSub (jsDiv (jsAdd a b) 2) (toDouble 0.15) = toDouble (m - c)"
    by (simp_all add: jsAdd_def jsSub_def jsDiv_def m_def s_def c_def)
  show "jsSub (jsDiv (jsAdd a b) 2) (toDouble 0.15) < jsAdd (jsDiv (jsAdd a b) 2) (toDouble 0.15)"
    unfolding eq using A B c k(2) by linarith
  have "\<bar>toDouble (m + c) - toDouble (m - c) - 3 / 10\<bar> \<le> 4 * k"
    using A B c by linarith
  then show "\<bar>jsAdd (jsDiv (jsAdd a b) 2) (toDouble 0.15)
          - jsSub (jsDiv (jsAdd a b) 2) (toDouble 0.15) - 0.3\<bar> \<le> 1 / 2 ^ 44"
    unfolding eq k(3) by simp
  have mid: "\<bar>m - (a + b) / 2\<bar> \<le> 2 * k"
    using m s k(1) unfolding add_divide_distrib by linarith
  show "\<bar>jsAdd (jsDiv (jsAdd a b) 2) (toDouble 0.15) - ((a + b) / 2 + 3 / 20)\<bar> \<le> 1 / 2 ^ 44"
    unfolding eq k(3) using A c mid unfolding add_divide_distrib by linarith
  show "\<bar>jsSub (jsDiv (jsAdd a b) 2) (toDouble 0.15) - ((a + b) / 2 - 3 / 20)\<bar> \<le> 1 / 2 ^ 44"
    unfolding eq k(3) using B c mid unfolding add_divide_distrib by linarith
qed

text \<open>From a point to itself the interior points lie above and below the point.\<close>

lemma same_point_offsets:
  assumes "\<bar>a\<bar> \<le> 90"
  shows "a < jsAdd (jsDiv (jsAdd a a) 2) (toDouble 0.15)"
    and "jsSub (jsDiv (jsAdd a a) 2) (toDouble 0.15) < a"
    and "\<bar>jsAdd (jsDiv (jsAdd a a) 2) (toDouble 0.15) - (a + 3 / 20)\<bar> \<le> 1 / 2 ^ 44"
    and "\<bar>jsSub (jsDiv (jsAdd a a) 2) (toDouble 0.15) - (a - 3 / 20)\<bar> \<le> 1 / 2 ^ 44"
proof -
  have k: "(1::real) / 2 ^ 44 \<le> 1 / 100"
    by simp
  show "a < jsAdd (jsDiv (jsAdd a a) 2) (toDouble 0.15)"
    using offsets_apart(3)[OF assms assms] k unfolding add_divide_distrib by linarith
  show "jsSub (jsDiv (jsAdd a a) 2) (toDouble 0.15) < a"
    using offsets_apart(4)[OF assms assms] k unfolding add_divide_distrib by linarith
  show "\<bar>jsAdd (jsDiv (jsAdd a a) 2) (toDouble 0.15) - (a + 3 / 20)\<bar> \<le> 1 / 2 ^ 44"
    using offsets_apart(3)[OF assms assms] unfolding add_divide_distrib by linarith
  show "\<bar>jsSub (jsDiv (jsAdd a a) 2) (toDouble 0.15) - (a - 3 / 20)\<bar> \<le> 1 / 2 ^ 44"
    using offsets_apart(4)[OF assms assms] unfolding add_divide_distrib by linarith
qed

text \<open>
  The bound of \<open>toDouble_near\<close> for larger numbers, where the doubles lie further
  apart.
\<close>

lemma toDouble_near512:
  assumes "\<bar>x\<bar> < 512"
  shows "\<bar>toDouble x - x\<bar> \<le> 1 / 2 ^ 45"
proof (cases "x = 0")
  case True
  then show ?thesis by (simp add: toDouble_def)
next
  case False
  have "ulp x \<le> 2 powi (8 - 52)"
    using False assms by (intro ulp_le) simp_all
  then have "ulp x / 2 \<le> 1 / 2 ^ 45"
    by simp
  with toDouble_err[of x] show ?thesis by linarith
qed

lemma toDouble_near2048:
  assumes "\<bar>x\<bar> < 2048"
  shows "\<bar>toDouble x - x\<bar> \<le> 1 / 2 ^ 43"
proof (cases "x = 0")
  case True
  then show ?thesis by (simp add: toDouble_def)
next
  case False
  have "ulp x \<le> 2 powi (10 - 52)"
    using False assms by (intro ulp_le) simp_all
  then have "ulp x / 2 \<le> 1 / 2 ^ 43"
    by simp
  with toDouble_err[of x] show ?thesis by linarith
qed

text \<open>
  The midpoint of lines 113 and 114, for coordinates between -180 and 180: the sum and
  its half are each rounded once.
\<close>

lemma midpoint_near:
  assumes "\<bar>a\<bar> \<le> 180" and "\<bar>b\<bar> \<le> 180"
  shows "\<bar>jsDiv (jsAdd a b) 2 - (a + b) / 2\<bar> \<le> 1 / 2 ^ 45"
    and "\<bar>jsDiv (jsAdd a b) 2\<bar> \<le> 181"
proof -
  define s where "s = toDouble (a + b)"
  define m where "m = toDouble (s / 2)"
  define k :: real where "k = 1 / 2 ^ 46"
  have k: "0 < k" "k \<le> 1 / 1000" "1 / 2 ^ 45 = 2 * k"
    by (simp_all add: k_def)
  have s: "\<bar>s - (a + b)\<bar> \<le> 2 * k"
    unfolding s_def k(3)[symmetric] using assms by (intro toDouble_near512) linarith
  have m: "\<bar>m - s / 2\<bar> \<le> k"
    unfolding m_def k_def using s k(2) assms by (intro toDouble_near) linarith
  have eq: "jsDiv (jsAdd a b) 2 = m"
    by (simp add: jsAdd_def jsDiv_def m_def s_def)
  show "\<bar>jsDiv (jsAdd a b) 2 - (a + b) / 2\<bar> \<le> 1 / 2 ^ 45"
    unfolding eq k(3) using m s k(1) unfolding add_divide_distrib by linarith
  show "\<bar>jsDiv (jsAdd a b) 2\<bar> \<le> 181"
    unfolding eq using m s k(2) assms by linarith
qed

text \<open>
  The positions of the hazard markers (line 139) around a midpoint \<open>m\<close>: the product
  \<open>i * 0.05\<close> and the sum or difference are each rounded once.
\<close>

lemma hazard_offsets:
  assumes "\<bar>m\<bar> \<le> 181"
  shows "\<bar>jsAdd m (jsMul 0 (toDouble 0.05)) - (m + 0 * (1 / 20))\<bar> \<le> 1 / 2 ^ 44"
    and "\<bar>jsAdd m (jsMul 1 (toDouble 0.05)) - (m + 1 * (1 / 20))\<bar> \<le> 1 / 2 ^ 44"
    and "\<bar>jsAdd m (jsMul 2 (toDouble 0.05)) - (m + 2 * (1 / 20))\<bar> \<le> 1 / 2 ^ 44"
    and "\<bar>jsSub m (jsMul 0 (toDouble 0.05)) - (m - 0 * (1 / 20))\<bar> \<le> 1 / 2 ^ 44"
    and "\<bar>jsSub m (jsMul 1 (toDouble 0.05)) - (m - 1 * (1 / 20))\<bar> \<le> 1 / 2 ^ 44"
    and "\<bar>jsSub m (jsMul 2 (toDouble 0.05)) - (m - 2 * (1 / 20))\<bar> \<le> 1 / 2 ^ 44"
proof -
  define c where "c = toDouble 0.05"
  define p1 where "p1 = toDouble c"
  define p2 where "p2 = toDouble (2 * c)"
  define k :: real where "k = 1 / 2 ^ 46"
  have k: "0 < k" "k \<le> 1 / 1000" "1 / 2 ^ 44 = 4 * k"
    by (simp_all add: k_def)
  have c: "\<bar>c - 1 / 20\<bar> \<le> k"
    using toDouble_near[of "0.05"] by (simp add: c_def k_def)
  have p1: "\<bar>p1 - c\<bar> \<le> k"
    unfolding p1_def k_def using c k(2) by (intro toDouble_near) linarith
  have p2: "\<bar>p2 - 2 * c\<bar> \<le> k"
    unfolding p2_def k_def using c k(2) by (intro toDouble_near) linarith
  have a0: "\<bar>toDouble m - m\<bar> \<le> k"
    unfolding k_def using assms by (intro toDouble_near) linarith
  have a1: "\<bar>toDouble (m + p1) - (m + p1)\<bar> \<le> k"
    unfolding k_def using assms c p1 k(2) by (intro toDouble_near) linarith
  have a2: "\<bar>toDouble (m + p2) - (m + p2)\<bar> \<le> k"
    unfolding k_def using assms c p2 k(2) by (intro toDouble_near) linarith
  have s1: "\<bar>toDouble (m - p1) - (m - p1)\<bar> \<le> k"
    unfolding k_def using assms c p1 k(2) by (intro toDouble_near) linarith
  have s2: "\<bar>toDouble (m - p2) - (m - p2)\<bar> \<le> k"
    unfolding k_def using assms c p2 k(2) by (intro toDouble_near) linarith
  have eq: "jsAdd m (jsMul 0 (toDouble 0.05)) = toDouble m"
           "jsAdd m (jsMul 1 (toDouble 0.05)) = toDouble (m + p1)"
           "jsAdd m (jsMul 2 (toDouble 0.05)) = toDouble (m + p2)"
           "jsSub m (jsMul 0 (toDouble 0.05)) = toDouble m"
           "jsSub m (jsMul 1 (toDouble 0.05)) = toDouble (m - p1)"
           "jsSub m (jsMul 2 (toDouble 0.05)) = toDouble (m - p2)"
    by (simp_all add: jsAdd_def jsSub_def jsMul_def toDouble_0 p1_def p2_def c_def)
  show "\<bar>jsAdd m (jsMul 0 (toDouble 0.05)) - (m + 0 * (1 / 20))\<bar> \<le> 1 / 2 ^ 44"
    unfolding eq k(3) using a0 k(1) by linarith
  show "\<bar>jsAdd m (jsMul 1 (toDouble 0.05)) - (m + 1 * (1 / 20))\<bar> \<le> 1 / 2 ^ 44"
    unfolding eq k(3) using a1 p1 c by linarith
  show "\<bar>jsAdd m (jsMul 2 (toDouble 0.05)) - (m + 2 * (1 / 20))\<bar> \<le> 1 / 2 ^ 44"
    unfolding eq k(3) using a2 p2 c by linarith
  show "\<bar>jsSub m (jsMul 0 (toDouble 0.05)) - (m - 0 * (1 / 20))\<bar> \<le> 1 / 2 ^ 44"
    unfolding eq k(3) using a0 k(1) by linarith
  show "\<bar>jsSub m (jsMul 1 (toDouble 0.05)) - (m - 1 * (1 / 20))\<bar> \<le> 1 / 2 ^ 44"
    unfolding eq k(3) using s1 p1 c by linarith
  show "\<bar>jsSub m (jsMul 2 (toDouble 0.05)) - (m - 2 * (1 / 20))\<bar> \<le> 1 / 2 ^ 44"
    unfolding eq k(3) using s2 p2 c by linarith
qed

text \<open>The interior points for coordinates of magnitude up to 1000.\<close>

lemma offsets_wide:
  assumes "\<bar>a\<bar> \<le> 1000" and "\<bar>b\<bar> \<le> 1000"
  shows "\<bar>jsAdd (jsDiv (jsAdd a b) 2) (toDouble 0.15) - ((a + b) / 2 + 3 / 20)\<bar> \<le> 1 / 2 ^ 41"
    and "\<bar>jsSub (jsDiv (jsAdd a b) 2) (toDouble 0.15) - ((a + b) / 2 - 3 / 20)\<bar> \<le> 1 / 2 ^ 41"
    and "\<bar>jsDiv (jsAdd a b) 2 - (a + b) / 2\<bar> \<le> 1 / 2 ^ 41"
proof -
  define s where "s = toDouble (a + b)"
  define m where "m = toDouble (s / 2)"
  define c where "c = toDouble 0.15"
  define k :: real where "k = 1 / 2 ^ 43"
  have k: "0 < k" "k \<le> 1 / 1000" "1 / 2 ^ 41 = 4 * k" "1 / 2 ^ 46 \<le> k"
    by (simp_all add: k_def)
  have s: "\<bar>s - (a + b)\<bar> \<le> k"
    unfolding s_def k_def using assms by (intro toDouble_near2048) linarith
  have m: "\<bar>m - s / 2\<bar> \<le> k"
    unfolding m_def k_def using s k(2) assms by (intro toDouble_near2048) linarith
  have c: "\<bar>c - 3 / 20\<bar> \<le> k"
    using toDouble_near[of "0.15"] k(4) by (simp add: c_def)
  have A: "\<bar>toDouble (m + c) - (m + c)\<bar> \<le> k"
    unfolding k_def using s m c k(2) assms by (intro toDouble_near2048) linarith
  have B: "\<bar>toDouble (m - c) - (m - c)\<bar> \<le> k"
    unfolding k_def using s m c k(2) assms by (intro toDouble_near2048) linarith
  have eq: "jsAdd (jsDiv (jsAdd a b) 2) (toDouble 0.15) = toDouble (m + c)"
        "jsSub (jsDiv (jsAdd a b) 2) (toDouble 0.15) = toDouble (m - c)"
    by (simp_all add: jsAdd_def jsSub_def jsDiv_def m_def s_def c_def)
  have eqm: "jsDiv (jsAdd a b) 2 = m"
    by (simp add: jsAdd_def jsDiv_def m_def s_def)
  have mid: "\<bar>m - (a + b) / 2\<bar> \<le> 2 * k"
    using m s k(1) unfolding add_divide_distrib by linarith
  show "\<bar>jsAdd (jsDiv (jsAdd a b) 2) (toDouble 0.15) - ((a + b) / 2 + 3 / 20)\<bar> \<le> 1 / 2 ^ 41"
    unfolding eq k(3) using A c mid unfolding add_divide_distrib by linarith
  show "\<bar>jsSub (jsDiv (jsAdd a b) 2) (toDouble 0.15) - ((a + b) / 2 - 3 / 20)\<bar> \<le> 1 / 2 ^ 41"
    unfolding eq k(3) using B c mid unfolding add_divide_distrib by linarith
  show "\<bar>jsDiv (jsAdd a b) 2 - (a + b) / 2\<bar> \<le> 1 / 2 ^ 41"
    unfolding eqm k(3) using mid k(1) unfolding add_divide_distrib by linarith
qed

section \<open>Lemmas about the stretches of code\<close>

subsection \<open>Cleanup\<close>

lemma fold_removeLayer:
  "fold removeLayer hs s = s\<lparr> layers := filter (\<lambda>h. h \<notin> set hs) (layers s) \<rparr>"
proof (induction hs arbitrary: s)
  case Nil
  then show ?case by simp
next
  case (Cons h hs)
  have "fold removeLayer (h # hs) s = fold removeLayer hs (removeLayer h s)"
    by simp
  also have "\<dots> = (removeLayer h s)\<lparr> layers := filter (\<lambda>k. k \<notin> set hs) (layers (removeLayer h s)) \<rparr>"
    by (rule Cons.IH)
  also have "\<dots> = s\<lparr> layers := filter (\<lambda>k. k \<notin> set (h # hs)) (layers s) \<rparr>"
    by (simp add: removeLayer_def removeAll_filter_not_eq conj_commute eq_commute)
  finally show ?case .
qed

lemma removeIfSet_eq:
  "removeIfSet v s = s\<lparr> layers := filter (\<lambda>h. h \<notin> set_option v) (layers s) \<rparr>"
  by (cases v) (simp_all add: removeIfSet_def removeLayer_def removeAll_filter_not_eq eq_commute)

lemma clearMap_eq:
  "clearMap s = s\<lparr> layers := filter (\<lambda>h. h \<notin> tracked s) (layers s), hazardMarkers := [] \<rparr>"
  by (simp add: clearMap_def Let_def removeIfSet_eq fold_removeLayer tracked_def conj_ac)

lemma fresh_clearMap: "fresh s \<Longrightarrow> fresh (clearMap s)"
  by (simp add: clearMap_eq fresh_def)

lemma fresh_request: "fresh (request q s) = fresh s"
  by (simp add: request_def fresh_def)

lemma fresh_init: "fresh init"
  by (simp add: fresh_def init_def)

subsection \<open>Installing a session\<close>

lemma fresh_notin: "fresh s \<Longrightarrow> nextId s \<le> h \<Longrightarrow> h \<notin> set (layers s)"
  by (auto simp: fresh_def)

lemma addHazard_eq:
  assumes "nextId s \<notin> set (layers s)"
  shows "addHazard x y (i, hz) s =
     s\<lparr> layers := layers s @ [nextId s],
        objs := (objs s)(nextId s \<mapsto> Marker (jsAdd x (jsMul (real i) (toDouble 0.05)),
                                                jsSub y (jsMul (real i) (toDouble 0.05)))
                   (getHazardIcon (type hz)) (Some (hazardPopup hz)) False),
        nextId := Suc (nextId s),
        hazardMarkers := hazardMarkers s @ [nextId s] \<rparr>"
  by (simp add: addHazard_def newLayer_def addTo_def bindPopup_def assms)

lemma handles:
  "n + 3 = Suc (Suc (Suc n))" "n + 4 = Suc (Suc (Suc (Suc n)))"
  "n + 5 = Suc (Suc (Suc (Suc (Suc n))))" "n + 6 = Suc (Suc (Suc (Suc (Suc (Suc n)))))"
  "n + 7 = Suc (Suc (Suc (Suc (Suc (Suc (Suc n))))))"
  by simp_all

lemma install_eq:
  assumes "fresh s"
  shows "install a b s =
     s\<lparr> layers := layers s @ [nextId s, nextId s + 1, nextId s + 2, nextId s + 3,
                              nextId s + 4, nextId s + 5, nextId s + 6],
        objs := (objs s)
          (nextId s \<mapsto> Marker (lat a, lon a) DefaultIcon
                       (Some [Glyph 0x1F4CD, Text '' Start'', Br, Text (display a)]) True,
           nextId s + 1 \<mapsto> Marker (lat b, lon b) DefaultIcon
                       (Some [Glyph 0x1F3C1, Text '' Destination'', Br, Text (display b)]) False,
           nextId s + 4 \<mapsto> Marker (jsAdd (midLat a b) (jsMul 0 (toDouble 0.05)),
                          jsSub (midLon a b) (jsMul 0 (toDouble 0.05))) (getHazardIcon ''Flooding'')
                       (Some (hazardPopup (simulatedHazards ! 0))) False,
           nextId s + 5 \<mapsto> Marker (jsAdd (midLat a b) (jsMul 1 (toDouble 0.05)),
                          jsSub (midLon a b) (jsMul 1 (toDouble 0.05)))
                       (getHazardIcon ''Construction'')
                       (Some (hazardPopup (simulatedHazards ! 1))) False,
           nextId s + 6 \<mapsto> Marker (jsAdd (midLat a b) (jsMul 2 (toDouble 0.05)),
                          jsSub (midLon a b) (jsMul 2 (toDouble 0.05)))
                       (getHazardIcon ''Congestion'')
                       (Some (hazardPopup (simulatedHazards ! 2))) False,
           nextId s + 2 \<mapsto> Polyline (routeAcoords a b) ''red'' 6 (Some routeASelected),
           nextId s + 3 \<mapsto> Polyline (routeBcoords a b) ''green'' 6 (Some routeBSelected)),
        nextId := nextId s + 7,
        view := FitBounds [nextId s + 2, nextId s + 3],
        routeA := Some (nextId s + 2),
        routeB := Some (nextId s + 3),
        startMarker := Some (nextId s),
        endMarker := Some (nextId s + 1),
        hazardMarkers := hazardMarkers s @ [nextId s + 4, nextId s + 5, nextId s + 6],
        result := routesFound \<rparr>"
  apply (simp add: install_def Let_def newLayer_def split_def)
  apply (simp add: addTo_def fresh_notin[OF assms] bindPopup_def openPopup_def)
  apply (simp add: simulatedHazards_def addHazard_eq fresh_notin[OF assms])
  apply (simp add: onClick_def handles)
  done

lemma install_layers:
  "fresh s \<Longrightarrow> layers (install a b s) = layers s @ [nextId s ..< nextId s + 7]"
  by (simp add: install_eq upt_rec[of "nextId s"] upt_rec[of "Suc n" for n] handles)

lemma install_nextId: "fresh s \<Longrightarrow> nextId (install a b s) = nextId s + 7"
  by (simp add: install_eq)

lemma fresh_install: "fresh s \<Longrightarrow> fresh (install a b s)"
  by (auto simp: install_layers install_nextId fresh_def)

lemma install_vars:
  assumes "fresh s"
  shows "startMarker (install a b s) = Some (nextId s)"
    and "endMarker (install a b s) = Some (nextId s + 1)"
    and "routeA (install a b s) = Some (nextId s + 2)"
    and "routeB (install a b s) = Some (nextId s + 3)"
    and "hazardMarkers (install a b s) = hazardMarkers s @ [nextId s + 4, nextId s + 5, nextId s + 6]"
    and "result (install a b s) = routesFound"
    and "alerts (install a b s) = alerts s"
    and "requests (install a b s) = requests s"
  by (simp_all add: install_eq[OF assms])

lemma install_objs:
  assumes "fresh s"
  shows "objs (install a b s) (nextId s) = Some (Marker (lat a, lon a) DefaultIcon
                       (Some [Glyph 0x1F4CD, Text '' Start'', Br, Text (display a)]) True)"
    and "objs (install a b s) (nextId s + 1) = Some (Marker (lat b, lon b) DefaultIcon
                       (Some [Glyph 0x1F3C1, Text '' Destination'', Br, Text (display b)]) False)"
    and "objs (install a b s) (nextId s + 2) =
           Some (Polyline (routeAcoords a b) ''red'' 6 (Some routeASelected))"
    and "objs (install a b s) (nextId s + 3) =
           Some (Polyline (routeBcoords a b) ''green'' 6 (Some routeBSelected))"
    and "objs (install a b s) (nextId s + 4) =
           Some (Marker (jsAdd (midLat a b) (jsMul 0 (toDouble 0.05)),
                          jsSub (midLon a b) (jsMul 0 (toDouble 0.05))) (getHazardIcon ''Flooding'')
                       (Some (hazardPopup (simulatedHazards ! 0))) False)"
    and "objs (install a b s) (nextId s + 5) =
           Some (Marker (jsAdd (midLat a b) (jsMul 1 (toDouble 0.05)),
                          jsSub (midLon a b) (jsMul 1 (toDouble 0.05)))
                       (getHazardIcon ''Construction'')
                       (Some (hazardPopup (simulatedHazards ! 1))) False)"
    and "objs (install a b s) (nextId s + 6) =
           Some (Marker (jsAdd (midLat a b) (jsMul 2 (toDouble 0.05)),
                          jsSub (midLon a b) (jsMul 2 (toDouble 0.05)))
                       (getHazardIcon ''Congestion'')
                       (Some (hazardPopup (simulatedHazards ! 2))) False)"
    and "h < nextId s \<Longrightarrow> objs (install a b s) h = objs s h"
  by (simp_all add: install_eq[OF assms])

subsection \<open>A whole search\<close>

lemma findRoute_begin_empty:
  "trim a = [] \<or> trim b = [] \<Longrightarrow>
     findRoute_begin a b s =
       (Finished, s\<lparr> alerts := alerts s @ [''Please enter both start and destination locations.''] \<rparr>)"
  by (simp add: findRoute_begin_def)

lemma findRoute_begin_ok:
  "trim a \<noteq> [] \<Longrightarrow> trim b \<noteq> [] \<Longrightarrow>
     findRoute_begin a b s = (AwaitStart (trim b), request (trim a) (clearMap s))"
  by (simp add: findRoute_begin_def)

lemma findRoute_empty:
  "trim a = [] \<or> trim b = [] \<Longrightarrow>
     findRoute a b r1 r2 s =
       s\<lparr> alerts := alerts s @ [''Please enter both start and destination locations.''] \<rparr>"
  by (simp add: findRoute_def findRoute_begin_empty)

lemma findRoute_fail1:
  "trim a \<noteq> [] \<Longrightarrow> trim b \<noteq> [] \<Longrightarrow> geocodeLocation r1 = Inl m \<Longrightarrow>
     findRoute a b r1 r2 s = (request (trim a) (clearMap s))\<lparr> result := uncertainty m \<rparr>"
  by (simp add: findRoute_def findRoute_begin_ok)

lemma findRoute_fail2:
  "trim a \<noteq> [] \<Longrightarrow> trim b \<noteq> [] \<Longrightarrow> geocodeLocation r1 = Inr p \<Longrightarrow>
   geocodeLocation r2 = Inl m \<Longrightarrow>
     findRoute a b r1 r2 s =
       (request (trim b) (request (trim a) (clearMap s)))\<lparr> result := uncertainty m \<rparr>"
  by (simp add: findRoute_def findRoute_begin_ok)

lemma findRoute_ok:
  "trim a \<noteq> [] \<Longrightarrow> trim b \<noteq> [] \<Longrightarrow>
     findRoute a b (Rows (d # ds)) (Rows (e # es)) s =
       install (placeOf d) (placeOf e) (request (trim b) (request (trim a) (clearMap s)))"
  by (simp add: findRoute_def findRoute_begin_ok placeOf_def)

lemma findRoute_cases:
  obtains (empty) "trim a = [] \<or> trim b = []"
  | (fail1) m where "trim a \<noteq> []" "trim b \<noteq> []" "geocodeLocation r1 = Inl m"
  | (fail2) p m where "trim a \<noteq> []" "trim b \<noteq> []" "geocodeLocation r1 = Inr p"
      "geocodeLocation r2 = Inl m"
  | (ok) d ds e es where "trim a \<noteq> []" "trim b \<noteq> []" "r1 = Rows (d # ds)" "r2 = Rows (e # es)"
proof (cases "trim a = [] \<or> trim b = []")
  case True
  then show ?thesis by (rule empty)
next
  case False
  then have ne: "trim a \<noteq> []" "trim b \<noteq> []" by simp_all
  show ?thesis
  proof (cases "geocodeLocation r1")
    case (Inl m)
    with ne show ?thesis by (rule fail1)
  next
    case p: (Inr p)
    show ?thesis
    proof (cases "geocodeLocation r2")
      case (Inl m)
      with ne p show ?thesis by (rule fail2)
    next
      case q: (Inr q)
      from p obtain d ds where "r1 = Rows (d # ds)"
        by (cases r1 rule: geocodeLocation.cases) simp_all
      moreover from q obtain e es where "r2 = Rows (e # es)"
        by (cases r2 rule: geocodeLocation.cases) simp_all
      ultimately show ?thesis using ne by (rule ok[rotated 2])
    qed
  qed
qed

lemma fresh_pre: "fresh s \<Longrightarrow> fresh (request q2 (request q1 (clearMap s)))"
  by (simp add: fresh_request fresh_clearMap)

lemma pre_fields:
  "layers (request q2 (request q1 (clearMap s))) = filter (\<lambda>h. h \<notin> tracked s) (layers s)"
  "nextId (request q2 (request q1 (clearMap s))) = nextId s"
  "hazardMarkers (request q2 (request q1 (clearMap s))) = []"
  "objs (request q2 (request q1 (clearMap s))) = objs s"
  "requests (request q2 (request q1 (clearMap s))) = requests s @ [q1 @ '', Nepal'', q2 @ '', Nepal'']"
  "alerts (request q2 (request q1 (clearMap s))) = alerts s"
  by (simp_all add: request_def clearMap_eq)


text \<open>What a search that resolves both places leaves behind.\<close>

lemma findRoute_ok_layers:
  assumes "fresh s" "trim a \<noteq> []" "trim b \<noteq> []"
  shows "layers (findRoute a b (Rows (d # ds)) (Rows (e # es)) s) =
           filter (\<lambda>h. h \<notin> tracked s) (layers s) @ [nextId s ..< nextId s + 7]"
    and "nextId (findRoute a b (Rows (d # ds)) (Rows (e # es)) s) = nextId s + 7"
  using assms by (simp_all add: findRoute_ok install_layers install_nextId fresh_pre pre_fields)

lemma findRoute_ok_vars:
  assumes "fresh s" "trim a \<noteq> []" "trim b \<noteq> []"
  shows "startMarker (findRoute a b (Rows (d # ds)) (Rows (e # es)) s) = Some (nextId s)"
    and "endMarker (findRoute a b (Rows (d # ds)) (Rows (e # es)) s) = Some (nextId s + 1)"
    and "routeA (findRoute a b (Rows (d # ds)) (Rows (e # es)) s) = Some (nextId s + 2)"
    and "routeB (findRoute a b (Rows (d # ds)) (Rows (e # es)) s) = Some (nextId s + 3)"
    and "hazardMarkers (findRoute a b (Rows (d # ds)) (Rows (e # es)) s) =
           [nextId s + 4, nextId s + 5, nextId s + 6]"
    and "result (findRoute a b (Rows (d # ds)) (Rows (e # es)) s) = routesFound"
  using assms by (simp_all add: findRoute_ok install_vars fresh_pre pre_fields)

lemma findRoute_ok_objs:
  assumes "fresh s" "trim a \<noteq> []" "trim b \<noteq> []"
  shows "objs (findRoute a b (Rows (d # ds)) (Rows (e # es)) s) (nextId s) =
           Some (Marker (row_lat d, row_lon d) DefaultIcon
                   (Some [Glyph 0x1F4CD, Text '' Start'', Br, Text (display_name d)]) True)"
    and "objs (findRoute a b (Rows (d # ds)) (Rows (e # es)) s) (nextId s + 1) =
           Some (Marker (row_lat e, row_lon e) DefaultIcon
                   (Some [Glyph 0x1F3C1, Text '' Destination'', Br, Text (display_name e)]) False)"
    and "objs (findRoute a b (Rows (d # ds)) (Rows (e # es)) s) (nextId s + 2) =
           Some (Polyline (routeAcoords (placeOf d) (placeOf e)) ''red'' 6 (Some routeASelected))"
    and "objs (findRoute a b (Rows (d # ds)) (Rows (e # es)) s) (nextId s + 3) =
           Some (Polyline (routeBcoords (placeOf d) (placeOf e)) ''green'' 6 (Some routeBSelected))"
    and "objs (findRoute a b (Rows (d # ds)) (Rows (e # es)) s) (nextId s + 4) =
           Some (Marker (jsAdd (midLat (placeOf d) (placeOf e)) (jsMul 0 (toDouble 0.05)),
                         jsSub (midLon (placeOf d) (placeOf e)) (jsMul 0 (toDouble 0.05)))
                   (getHazardIcon ''Flooding'') (Some (hazardPopup (simulatedHazards ! 0))) False)"
    and "objs (findRoute a b (Rows (d # ds)) (Rows (e # es)) s) (nextId s + 5) =
           Some (Marker (jsAdd (midLat (placeOf d) (placeOf e)) (jsMul 1 (toDouble 0.05)),
                         jsSub (midLon (placeOf d) (placeOf e)) (jsMul 1 (toDouble 0.05)))
                   (getHazardIcon ''Construction'') (Some (hazardPopup (simulatedHazards ! 1))) False)"
    and "objs (findRoute a b (Rows (d # ds)) (Rows (e # es)) s) (nextId s + 6) =
           Some (Marker (jsAdd (midLat (placeOf d) (placeOf e)) (jsMul 2 (toDouble 0.05)),
                         jsSub (midLon (placeOf d) (placeOf e)) (jsMul 2 (toDouble 0.05)))
                   (getHazardIcon ''Congestion'') (Some (hazardPopup (simulatedHazards ! 2))) False)"
    and "h < nextId s \<Longrightarrow> objs (findRoute a b (Rows (d # ds)) (Rows (e # es)) s) h = objs s h"
  using assms(2,3)
    install_objs[OF fresh_pre[OF assms(1)], where a = "placeOf d" and b = "placeOf e"]
  by (simp_all add: findRoute_ok pre_fields placeOf_def)

lemma findRoute_ok_shown:
  assumes "fresh s" "trim a \<noteq> []" "trim b \<noteq> []" "nextId s \<le> h" "h < nextId s + 7"
  shows "h \<in> set (layers (findRoute a b (Rows (d # ds)) (Rows (e # es)) s))"
  using assms(4,5) by (simp add: findRoute_ok_layers[OF assms(1-3)])

lemma nextId_findRoute: "fresh s \<Longrightarrow> nextId s \<le> nextId (findRoute a b r1 r2 s)"
proof (cases rule: findRoute_cases[where a = a and b = b and ?r1.0 = r1 and ?r2.0 = r2])
  case empty
  then show ?thesis by (simp add: findRoute_empty)
next
  case (fail1 m)
  then show ?thesis by (simp add: findRoute_fail1 request_def clearMap_eq)
next
  case (fail2 p m)
  then show ?thesis by (simp add: findRoute_fail2 request_def clearMap_eq)
next
  case (ok d ds e es)
  then show "fresh s \<Longrightarrow> ?thesis" by (simp add: findRoute_ok_layers)
qed


text \<open>A search that nothing interrupts is three steps of the event loop.\<close>

lemma run_sequential:
  "fold step [Search a b, Response (length ps) r1, Response (length ps) r2] (ps, s)
     = (ps @ [Finished], findRoute a b r1 r2 s)"
proof (cases rule: findRoute_cases[where a = a and b = b and ?r1.0 = r1 and ?r2.0 = r2])
  case empty
  then show ?thesis by (simp add: findRoute_empty findRoute_begin_empty)
next
  case (fail1 m)
  then show ?thesis by (simp add: findRoute_fail1 findRoute_begin_ok)
next
  case (fail2 p m)
  then show ?thesis by (simp add: findRoute_fail2 findRoute_begin_ok)
next
  case (ok d ds e es)
  then show ?thesis by (simp add: findRoute_ok findRoute_begin_ok placeOf_def)
qed

lemma run_snoc: "run (es @ [ev]) = step ev (run es)"
  by (simp add: run_def)

lemma resume_ok:
  "resume (AwaitStart endName) (Rows (d # ds)) s = (AwaitEnd (placeOf d), request endName s)"
  "resume (AwaitEnd start) (Rows (d # ds)) s = (Finished, install start (placeOf d) s)"
  by (simp_all add: placeOf_def)

lemma click_handler:
  "h \<in> set (layers s) \<Longrightarrow> objs s h = Some (Polyline ps col w (Some c)) \<Longrightarrow>
     click h s = s\<lparr> result := c \<rparr>"
  by (simp add: click_def)

text \<open>
  Every handle on the map has been allocated, in every state the event loop reaches.
\<close>

lemma fresh_findRoute_begin: "fresh s \<Longrightarrow> fresh (snd (findRoute_begin a b s))"
  by (simp add: findRoute_begin_def Let_def fresh_request fresh_clearMap) (simp add: fresh_def)

lemma fresh_resume: "fresh s \<Longrightarrow> fresh (snd (resume p r s))"
proof (cases p)
  case Finished
  then show "fresh s \<Longrightarrow> ?thesis" by simp
next
  case (AwaitStart endName)
  then show "fresh s \<Longrightarrow> ?thesis"
    by (cases "geocodeLocation r") (simp_all add: fresh_request, simp add: fresh_def)
next
  case (AwaitEnd start)
  then show "fresh s \<Longrightarrow> ?thesis"
    by (cases "geocodeLocation r") (simp_all add: fresh_install, simp add: fresh_def)
qed

lemma fresh_step: "fresh (snd c) \<Longrightarrow> fresh (snd (step ev c))"
proof (cases c)
  case (Pair ps s)
  show "fresh (snd c) \<Longrightarrow> ?thesis"
  proof (cases ev)
    case (Search a b)
    then show "fresh (snd c) \<Longrightarrow> ?thesis"
      using fresh_findRoute_begin[of s a b] Pair by (simp add: split_def)
  next
    case (Response k r)
    then show "fresh (snd c) \<Longrightarrow> ?thesis"
      using fresh_resume[of s "ps ! k" r] Pair by (simp add: split_def)
  qed
qed

lemma fresh_fold_step: "fresh (snd c) \<Longrightarrow> fresh (snd (fold step es c))"
  by (induction es arbitrary: c) (simp_all add: fresh_step)

lemma fresh_run: "fresh (snd (run es))"
  by (simp add: run_def fresh_fold_step fresh_init)

subsection \<open>The example searches\<close>

lemma trim_names:
  "trim ''Pokhara'' \<noteq> []" "trim ''Kathmandu'' \<noteq> []"
  "trim ''Biratnagar'' \<noteq> []" "trim ''Dharan'' \<noteq> []"
  by (simp_all add: trim_def isWhiteSpace_def)

lemma trim_values:
  "trim ''Pokhara'' = ''Pokhara''" "trim ''Kathmandu'' = ''Kathmandu''"
  "trim ''Biratnagar'' = ''Biratnagar''" "trim ''Dharan'' = ''Dharan''"
  by (simp_all add: trim_def isWhiteSpace_def)

lemma init_fields:
  "layers init = [0]" "nextId init = 1" "hazardMarkers init = []" "tracked init = {}"
  "requests init = []" "alerts init = []" "result init = []"
  by (simp_all add: init_def tracked_def)

lemma init_handles:
  "nextId init + 1 = 2" "nextId init + 2 = 3" "nextId init + 3 = 4" "nextId init + 4 = 5"
  "nextId init + 5 = 6" "nextId init + 6 = 7" "nextId init + 7 = 8"
  by (simp_all add: init_def)

lemma example_rows:
  "row_lat pokhara = toDouble 28.2096" "row_lon pokhara = toDouble 83.9856"
  "display_name pokhara = ''Pokhara''"
  "row_lat kathmandu = toDouble 27.7172" "row_lon kathmandu = toDouble 85.3240"
  "display_name kathmandu = ''Kathmandu''"
  "row_lat outOfRange = 100" "row_lon outOfRange = 200"
  by (simp_all add: pokhara_def kathmandu_def outOfRange_def)

lemma search1_fields:
  "layers (findRoute ''Pokhara'' ''Kathmandu'' (Rows [pokhara]) (Rows [kathmandu]) init) = [0, 1, 2, 3, 4, 5, 6, 7]"
  "nextId (findRoute ''Pokhara'' ''Kathmandu'' (Rows [pokhara]) (Rows [kathmandu]) init) = 8"
  "startMarker (findRoute ''Pokhara'' ''Kathmandu'' (Rows [pokhara]) (Rows [kathmandu]) init) = Some 1"
  "endMarker (findRoute ''Pokhara'' ''Kathmandu'' (Rows [pokhara]) (Rows [kathmandu]) init) = Some 2"
  "routeA (findRoute ''Pokhara'' ''Kathmandu'' (Rows [pokhara]) (Rows [kathmandu]) init) = Some 3"
  "routeB (findRoute ''Pokhara'' ''Kathmandu'' (Rows [pokhara]) (Rows [kathmandu]) init) = Some 4"
  "hazardMarkers (findRoute ''Pokhara'' ''Kathmandu'' (Rows [pokhara]) (Rows [kathmandu]) init) = [5, 6, 7]"
  using findRoute_ok_layers[OF fresh_init trim_names(1,2), of pokhara "[]" kathmandu "[]"]
        findRoute_ok_vars[OF fresh_init trim_names(1,2), of pokhara "[]" kathmandu "[]"]
  by (simp_all add: init_def tracked_def upt_rec)


text \<open>The schedule \<open>overtaken\<close>, and the arrival of the first search's start place after it.\<close>

lemma run_overtaken:
  "run overtaken =
     ([AwaitStart ''Kathmandu'', Finished],
      install (placeOf biratnagar) (placeOf dharan)
        (request ''Dharan'' (request ''Biratnagar'' (clearMap (request ''Pokhara'' (clearMap init))))))"
  by (simp add: run_def overtaken_def findRoute_begin_def trim_values placeOf_def)

lemma overtaken_pre:
  "fresh (request ''Dharan'' (request ''Biratnagar'' (clearMap (request ''Pokhara'' (clearMap init)))))"
  "layers (request ''Dharan'' (request ''Biratnagar'' (clearMap (request ''Pokhara'' (clearMap init))))) = [0]"
  "nextId (request ''Dharan'' (request ''Biratnagar'' (clearMap (request ''Pokhara'' (clearMap init))))) = 1"
  "hazardMarkers (request ''Dharan'' (request ''Biratnagar'' (clearMap (request ''Pokhara'' (clearMap init))))) = []"
  by (simp_all add: fresh_def request_def clearMap_eq init_def tracked_def)

lemma overtaken_fields:
  "fresh (snd (run overtaken))"
  "layers (snd (run overtaken)) = [0, 1, 2, 3, 4, 5, 6, 7]"
  "nextId (snd (run overtaken)) = 8"
  "routeA (snd (run overtaken)) = Some 3"
  "routeB (snd (run overtaken)) = Some 4"
  "startMarker (snd (run overtaken)) = Some 1"
  "endMarker (snd (run overtaken)) = Some 2"
  "hazardMarkers (snd (run overtaken)) = [5, 6, 7]"
  using overtaken_pre(1)
  by (simp_all add: run_overtaken fresh_install install_layers install_nextId install_vars
        overtaken_pre upt_rec)

lemma overtaken_routeA:
  "objs (snd (run overtaken)) 3 =
     Some (Polyline (routeAcoords (placeOf biratnagar) (placeOf dharan)) ''red'' 6 (Some routeASelected))"
  using install_objs(3)[OF overtaken_pre(1), of "placeOf biratnagar" "placeOf dharan"]
  unfolding overtaken_pre(3) by (simp add: run_overtaken numeral_3_eq_3)

lemma run_stale_start:
  "run (overtaken @ [Response 0 (Rows [pokhara])]) =
     ([AwaitEnd (placeOf pokhara), Finished], request ''Kathmandu'' (snd (run overtaken)))"
  by (simp add: run_snoc run_overtaken resume_ok del: resume.simps)

lemma stale_start_fields:
  "fresh (request ''Kathmandu'' (snd (run overtaken)))"
  "layers (request ''Kathmandu'' (snd (run overtaken))) = [0, 1, 2, 3, 4, 5, 6, 7]"
  "nextId (request ''Kathmandu'' (snd (run overtaken))) = 8"
  "hazardMarkers (request ''Kathmandu'' (snd (run overtaken))) = [5, 6, 7]"
  using overtaken_fields by (simp_all add: fresh_request) (simp_all add: request_def)

lemma stale_handles:
  "nextId (request ''Kathmandu'' (snd (run overtaken))) + 1 = 9"
  "nextId (request ''Kathmandu'' (snd (run overtaken))) + 2 = 10"
  "nextId (request ''Kathmandu'' (snd (run overtaken))) + 3 = 11"
  "nextId (request ''Kathmandu'' (snd (run overtaken))) + 4 = 12"
  "nextId (request ''Kathmandu'' (snd (run overtaken))) + 5 = 13"
  "nextId (request ''Kathmandu'' (snd (run overtaken))) + 6 = 14"
  "nextId (request ''Kathmandu'' (snd (run overtaken))) + 7 = 15"
  by (simp_all add: stale_start_fields)

subsection \<open>The arithmetic at some inputs\<close>

lemma toDouble_015': "toDouble (3 / 20) = 5404319552844595 / 2 ^ 55"
  using toDouble_015 by simp

lemma unit_mid: "jsDiv (jsAdd 1 1) 2 = 1"
  by (simp add: jsDiv_def jsAdd_def toDouble_2 toDouble_1)

lemma zero_mid: "jsDiv (jsAdd 0 0) 2 = 0"
  by (simp add: jsDiv_def jsAdd_def toDouble_0)

lemma unit_A: "jsAdd 1 (toDouble 0.15) = 5179139571476070 / 2 ^ 52"
proof -
  have "toDouble (1 + 5404319552844595 / 2 ^ 55) = 5179139571476070 / 2 ^ 52"
    by (subst toDouble_eval[where e = "0"]) (simp_all add: roundTiesToEven_def)
  then show ?thesis
    unfolding toDouble_015 jsAdd_def .
qed

lemma unit_B: "jsSub 1 (toDouble 0.15) = 7656119366529843 / 2 ^ 53"
proof -
  have "toDouble (1 - 5404319552844595 / 2 ^ 55) = 7656119366529843 / 2 ^ 53"
    by (subst toDouble_eval[where e = "- 1"]) (simp_all add: roundTiesToEven_def)
  then show ?thesis
    unfolding toDouble_015 jsSub_def .
qed

lemma huge_mid: "jsDiv (jsAdd (2 ^ 53) (2 ^ 53)) 2 = 2 ^ 53"
proof -
  have a: "toDouble (2 ^ 53 + 2 ^ 53) = 2 ^ 54"
    by (subst toDouble_eval[where e = "54"]) (simp_all add: roundTiesToEven_def)
  have b: "toDouble (2 ^ 54 / 2) = 2 ^ 53"
    by (subst toDouble_eval[where e = "53"]) (simp_all add: roundTiesToEven_def)
  show ?thesis
    unfolding jsDiv_def jsAdd_def a b ..
qed

lemma huge_A: "jsAdd (2 ^ 53) (toDouble 0.15) = 2 ^ 53"
proof -
  have "toDouble (2 ^ 53 + 5404319552844595 / 2 ^ 55) = 2 ^ 53"
    by (subst toDouble_eval[where e = "53"]) (simp_all add: roundTiesToEven_def)
  then show ?thesis
    unfolding toDouble_015 jsAdd_def .
qed

lemma huge_B: "jsSub (2 ^ 53) (toDouble 0.15) = 2 ^ 53"
proof -
  have "toDouble (2 ^ 53 - 5404319552844595 / 2 ^ 55) = 2 ^ 53"
    by (subst toDouble_eval[where e = "52"]) (simp_all add: roundTiesToEven_def)
  then show ?thesis
    unfolding toDouble_015 jsSub_def .
qed

lemma toDouble_le:
  assumes "\<bar>x\<bar> \<le> b" and "b \<le> 255"
  shows "\<bar>toDouble x\<bar> \<le> b + 1"
proof -
  have "\<bar>toDouble x - x\<bar> \<le> 1 / 2 ^ 46"
    using assms by (intro toDouble_near) linarith
  moreover have "(1::real) / 2 ^ 46 \<le> 1"
    by simp
  ultimately show ?thesis
    using assms(1) by linarith
qed

lemma example_valid:
  "\<bar>row_lat pokhara\<bar> \<le> 90" "\<bar>row_lon pokhara\<bar> \<le> 180"
  "\<bar>row_lat kathmandu\<bar> \<le> 90" "\<bar>row_lon kathmandu\<bar> \<le> 180"
  using toDouble_le[of "28.2096" 29] toDouble_le[of "83.9856" 84]
        toDouble_le[of "27.7172" 28] toDouble_le[of "85.3240" 86]
  by (simp_all add: example_rows)

text \<open>
  The doubles of the hazard markers around the points (1, 1) and (\<open>2 ^ 53\<close>, 0), the
  routes between each of these points and itself, and the markup of the three hazards.
\<close>

lemma toDouble_005: "toDouble 0.05 = 3602879701896397 / 2 ^ 56"
  by (subst toDouble_eval[where e = "- 5"]) (simp_all add: roundTiesToEven_def)

lemma jsMul_005:
  "jsMul 0 (toDouble 0.05) = 0"
  "jsMul 1 (toDouble 0.05) = 3602879701896397 / 2 ^ 56"
  "jsMul 2 (toDouble 0.05) = 3602879701896397 / 2 ^ 55"
proof -
  show "jsMul 0 (toDouble 0.05) = 0"
    by (simp add: jsMul_def toDouble_0)
  have "toDouble (3602879701896397 / 2 ^ 56) = 3602879701896397 / 2 ^ 56"
    by (subst toDouble_eval[where e = "- 5"]) (simp_all add: roundTiesToEven_def)
  then show "jsMul 1 (toDouble 0.05) = 3602879701896397 / 2 ^ 56"
    unfolding jsMul_def toDouble_005 by simp
  have "toDouble (2 * (3602879701896397 / 2 ^ 56)) = 3602879701896397 / 2 ^ 55"
    by (subst toDouble_eval[where e = "- 4"]) (simp_all add: roundTiesToEven_def)
  then show "jsMul 2 (toDouble 0.05) = 3602879701896397 / 2 ^ 55"
    unfolding jsMul_def toDouble_005 .
qed

lemma unit_hazard:
  "jsAdd 1 (3602879701896397 / 2 ^ 56) = 4728779608739021 / 2 ^ 52"
  "jsSub 1 (3602879701896397 / 2 ^ 56) = 4278419646001971 / 2 ^ 52"
proof -
  show "jsAdd 1 (3602879701896397 / 2 ^ 56) = 4728779608739021 / 2 ^ 52"
    unfolding jsAdd_def
    by (subst toDouble_eval[where e = "0"]) (simp_all add: roundTiesToEven_def)
  show "jsSub 1 (3602879701896397 / 2 ^ 56) = 4278419646001971 / 2 ^ 52"
    unfolding jsSub_def
    by (subst toDouble_eval[where e = "- 1"]) (simp_all add: roundTiesToEven_def)
qed

lemma huge_hazard:
  "jsAdd (2 ^ 53) 0 = 2 ^ 53"
  "jsAdd (2 ^ 53) (3602879701896397 / 2 ^ 56) = 2 ^ 53"
  "jsAdd (2 ^ 53) (3602879701896397 / 2 ^ 55) = 2 ^ 53"
  "jsSub 0 0 = 0"
  "jsSub 0 (3602879701896397 / 2 ^ 56) = - (3602879701896397 / 2 ^ 56)"
  "jsSub 0 (3602879701896397 / 2 ^ 55) = - (3602879701896397 / 2 ^ 55)"
proof -
  show "jsAdd (2 ^ 53) 0 = 2 ^ 53"
    unfolding jsAdd_def
    by (subst toDouble_eval[where e = "53"]) (simp_all add: roundTiesToEven_def)
  show "jsAdd (2 ^ 53) (3602879701896397 / 2 ^ 56) = 2 ^ 53"
    unfolding jsAdd_def
    by (subst toDouble_eval[where e = "53"]) (simp_all add: roundTiesToEven_def)
  show "jsAdd (2 ^ 53) (3602879701896397 / 2 ^ 55) = 2 ^ 53"
    unfolding jsAdd_def
    by (subst toDouble_eval[where e = "53"]) (simp_all add: roundTiesToEven_def)
  show "jsSub 0 0 = 0"
    by (simp add: jsSub_def toDouble_0)
  show "jsSub 0 (3602879701896397 / 2 ^ 56) = - (3602879701896397 / 2 ^ 56)"
    unfolding jsSub_def
    by (subst toDouble_eval[where e = "- 5"]) (simp_all add: roundTiesToEven_def)
  show "jsSub 0 (3602879701896397 / 2 ^ 55) = - (3602879701896397 / 2 ^ 55)"
    unfolding jsSub_def
    by (subst toDouble_eval[where e = "- 4"]) (simp_all add: roundTiesToEven_def)
qed


lemma valid_bounds:
  assumes "validCoordinate (a, b)"
  shows "\<bar>a\<bar> \<le> 90" and "\<bar>b\<bar> \<le> 180"
  using assms by (simp_all add: validCoordinate_def abs_le_iff)

lemma example_valid_coordinates:
  "validCoordinate (row_lat pokhara, row_lon pokhara)"
  "validCoordinate (row_lat kathmandu, row_lon kathmandu)"
  using example_valid by (simp_all add: validCoordinate_def abs_le_iff)

lemma unit_routes:
  "routeAcoords (placeOf unitRow) (placeOf unitRow) = [(1, 1), (5179139571476070 / 2 ^ 52, 1), (1, 1)]"
  "routeBcoords (placeOf unitRow) (placeOf unitRow) = [(1, 1), (7656119366529843 / 2 ^ 53, 1), (1, 1)]"
  by (simp_all only: routeAcoords_def routeBcoords_def midLat_def midLon_def placeOf_def
        unitRow_def row.simps place.simps unit_mid unit_A unit_B)

lemma huge_routes:
  "routeAcoords (placeOf hugeRow) (placeOf hugeRow) = [(2 ^ 53, 0), (2 ^ 53, 0), (2 ^ 53, 0)]"
  "routeBcoords (placeOf hugeRow) (placeOf hugeRow) = [(2 ^ 53, 0), (2 ^ 53, 0), (2 ^ 53, 0)]"
  by (simp_all only: routeAcoords_def routeBcoords_def midLat_def midLon_def placeOf_def
        hugeRow_def row.simps place.simps huge_mid huge_A huge_B zero_mid)

lemma unit_mids:
  "midLat (placeOf unitRow) (placeOf unitRow) = 1"
  "midLon (placeOf unitRow) (placeOf unitRow) = 1"
  by (simp_all only: midLat_def midLon_def placeOf_def unitRow_def row.simps place.simps unit_mid)

lemma huge_mids:
  "midLat (placeOf hugeRow) (placeOf hugeRow) = 2 ^ 53"
  "midLon (placeOf hugeRow) (placeOf hugeRow) = 0"
  by (simp_all only: midLat_def midLon_def placeOf_def hugeRow_def row.simps place.simps
        huge_mid zero_mid)

lemma hazard_markup:
  "getHazardIcon ''Flooding'' = DivIcon [Div (Style iconStyle) [Glyph 0x1F30A]]"
  "getHazardIcon ''Construction'' = DivIcon [Div (Style iconStyle) [Glyph 0x1F6A7]]"
  "getHazardIcon ''Congestion'' = DivIcon [Div (Style iconStyle) [Glyph 0x1F697]]"
  "hazardPopup (simulatedHazards ! 0) =
     [Bold [Text ''Flooding''], Br, Text ''Heavy rainfall reported'', Br,
      Italic [Text ''Simulated condition'']]"
  "hazardPopup (simulatedHazards ! 1) =
     [Bold [Text ''Construction''], Br, Text ''Ongoing road maintenance'', Br,
      Italic [Text ''Simulated condition'']]"
  "hazardPopup (simulatedHazards ! 2) =
     [Bold [Text ''Congestion''], Br, Text ''High traffic volume'', Br,
      Italic [Text ''Simulated condition'']]"
  by (simp_all add: simulatedHazards_def hazardPopup_def getHazardIcon_def icons_def)

section \<open>The claims\<close>

text \<open>
  C1, as the program has it: for every pair of resolved coordinates in the valid ranges
  (latitudes between -90 and 90, longitudes between -180 and 180), a search draws exactly
  two paths of three points each, both from the start to the destination. The interior
  point of path A is the midpoint with 0.15 added to its latitude, that of path B the
  midpoint with 0.15 subtracted from its latitude, up to the rounding of double
  arithmetic: the interior latitudes lie within \<open>2 ^ - 44\<close> of
  \<open>(start.lat + end.lat) / 2 + 0.15\<close> and of \<open>(start.lat + end.lat) / 2 - 0.15\<close>, and
  the interior longitude, the same on both paths, within \<open>2 ^ - 45\<close> of
  \<open>(start.lon + end.lon) / 2\<close>. The two paths are the polylines held by \<open>routeA\<close>
  and \<open>routeB\<close>, both on the map; of the layers the search creates, no other is a
  polyline.
\<close>

theorem two_three_point_paths:
  assumes "fresh s" and "trim startText \<noteq> []" and "trim endText \<noteq> []"
    and "validCoordinate (row_lat d, row_lon d)" and "validCoordinate (row_lat e, row_lon e)"
    and "S = findRoute startText endText (Rows (d # ds)) (Rows (e # es)) s"
    and "latA = jsAdd (jsDiv (jsAdd (row_lat d) (row_lat e)) 2) (toDouble 0.15)"
    and "latB = jsSub (jsDiv (jsAdd (row_lat d) (row_lat e)) 2) (toDouble 0.15)"
    and "lonM = jsDiv (jsAdd (row_lon d) (row_lon e)) 2"
  shows "routeA S = Some (nextId s + 2)
       \<and> routeB S = Some (nextId s + 3)
       \<and> objs S (nextId s + 2) =
           Some (Polyline [(row_lat d, row_lon d), (latA, lonM), (row_lat e, row_lon e)]
                   ''red'' 6 (Some routeASelected))
       \<and> objs S (nextId s + 3) =
           Some (Polyline [(row_lat d, row_lon d), (latB, lonM), (row_lat e, row_lon e)]
                   ''green'' 6 (Some routeBSelected))
       \<and> \<bar>latA - ((row_lat d + row_lat e) / 2 + 0.15)\<bar> \<le> 1 / 2 ^ 44
       \<and> \<bar>latB - ((row_lat d + row_lat e) / 2 - 0.15)\<bar> \<le> 1 / 2 ^ 44
       \<and> \<bar>lonM - (row_lon d + row_lon e) / 2\<bar> \<le> 1 / 2 ^ 45
       \<and> filter (\<lambda>h. isPolyline (objs S h)) [nextId s ..< nextId S] = [nextId s + 2, nextId s + 3]
       \<and> nextId s + 2 \<in> set (layers S)
       \<and> nextId s + 3 \<in> set (layers S)"
proof -
  note f = assms(1-3)
  note v = valid_bounds[OF assms(4)] valid_bounds[OF assms(5)]
  note o = findRoute_ok_objs[OF f, where d = d and ds = ds and e = e and es = es]
  have new: "filter (\<lambda>h. isPolyline (objs S h)) [nextId s ..< nextId s + 7]
           = [nextId s + 2, nextId s + 3]"
    unfolding assms(6) using o(1-7)
    by (simp add: upt_rec[of "nextId s"] upt_rec[of "Suc n" for n] handles)
  have A: "\<bar>latA - ((row_lat d + row_lat e) / 2 + 0.15)\<bar> \<le> 1 / 2 ^ 44"
    unfolding assms(7) using offsets_apart(3)[OF v(1,3)] by simp
  have B: "\<bar>latB - ((row_lat d + row_lat e) / 2 - 0.15)\<bar> \<le> 1 / 2 ^ 44"
    unfolding assms(8) using offsets_apart(4)[OF v(1,3)] by simp
  have M: "\<bar>lonM - (row_lon d + row_lon e) / 2\<bar> \<le> 1 / 2 ^ 45"
    unfolding assms(9) by (rule midpoint_near(1)[OF v(2,4)])
  have paths: "objs S (nextId s + 2) =
           Some (Polyline [(row_lat d, row_lon d), (latA, lonM), (row_lat e, row_lon e)]
                   ''red'' 6 (Some routeASelected))"
      "objs S (nextId s + 3) =
           Some (Polyline [(row_lat d, row_lon d), (latB, lonM), (row_lat e, row_lon e)]
                   ''green'' 6 (Some routeBSelected))"
    unfolding assms(6-9) using o(3,4)
    by (simp_all add: routeAcoords_def routeBcoords_def midLat_def midLon_def placeOf_def)
  have rest: "routeA S = Some (nextId s + 2)" "routeB S = Some (nextId s + 3)"
      "nextId S = nextId s + 7" "nextId s + 2 \<in> set (layers S)" "nextId s + 3 \<in> set (layers S)"
    unfolding assms(6)
    by (simp_all add: findRoute_ok_vars[OF f] findRoute_ok_layers[OF f])
  show ?thesis
    using A B M paths new unfolding rest(3) by (simp only: rest simp_thms)
qed

theorem two_three_point_paths_witness:
  "fresh init \<and> trim ''Pokhara'' \<noteq> [] \<and> trim ''Kathmandu'' \<noteq> []
   \<and> validCoordinate (row_lat pokhara, row_lon pokhara)
   \<and> validCoordinate (row_lat kathmandu, row_lon kathmandu)
   \<and> routeA (findRoute ''Pokhara'' ''Kathmandu'' (Rows [pokhara]) (Rows [kathmandu]) init) = Some 3
   \<and> routeB (findRoute ''Pokhara'' ''Kathmandu'' (Rows [pokhara]) (Rows [kathmandu]) init) = Some 4
   \<and> objs (findRoute ''Pokhara'' ''Kathmandu'' (Rows [pokhara]) (Rows [kathmandu]) init) 3 =
        Some (Polyline [ (row_lat pokhara, row_lon pokhara),
                         (jsAdd (jsDiv (jsAdd (row_lat pokhara) (row_lat kathmandu)) 2) (toDouble 0.15),
                          jsDiv (jsAdd (row_lon pokhara) (row_lon kathmandu)) 2),
                         (row_lat kathmandu, row_lon kathmandu) ]
                ''red'' 6 (Some routeASelected))
   \<and> \<bar>jsAdd (jsDiv (jsAdd (row_lat pokhara) (row_lat kathmandu)) 2) (toDouble 0.15)
        - ((row_lat pokhara + row_lat kathmandu) / 2 + 0.15)\<bar> \<le> 1 / 2 ^ 44
   \<and> \<bar>jsSub (jsDiv (jsAdd (row_lat pokhara) (row_lat kathmandu)) 2) (toDouble 0.15)
        - ((row_lat pokhara + row_lat kathmandu) / 2 - 0.15)\<bar> \<le> 1 / 2 ^ 44
   \<and> \<bar>jsDiv (jsAdd (row_lon pokhara) (row_lon kathmandu)) 2
        - (row_lon pokhara + row_lon kathmandu) / 2\<bar> \<le> 1 / 2 ^ 45"
  using two_three_point_paths[OF fresh_init trim_names(1,2) example_valid_coordinates refl refl refl refl,
          of "[]" "[]"]
  unfolding init_handles
  by (simp add: fresh_init trim_names example_valid_coordinates)

text \<open>
  Two inputs. From the point (1, 1) to itself the interior latitudes are the doubles
  nearest to 1.15 and 0.85, which are not these numbers. From latitude \<open>2 ^ 53\<close> to
  the same, where neighbouring doubles are 2 apart, adding or subtracting 0.15 changes
  nothing: the interior point of either path is the midpoint itself.
\<close>

theorem interior_points_not_exact_counterexample:
  "objs (findRoute ''Pokhara'' ''Kathmandu'' (Rows [unitRow]) (Rows [unitRow]) init) 3 =
        Some (Polyline [(1, 1), (5179139571476070 / 2 ^ 52, 1), (1, 1)]
                ''red'' 6 (Some routeASelected))
   \<and> 5179139571476070 / 2 ^ 52 \<noteq> ((1 + 1) / 2 + 0.15 :: real)
   \<and> objs (findRoute ''Pokhara'' ''Kathmandu'' (Rows [unitRow]) (Rows [unitRow]) init) 4 =
        Some (Polyline [(1, 1), (7656119366529843 / 2 ^ 53, 1), (1, 1)]
                ''green'' 6 (Some routeBSelected))
   \<and> 7656119366529843 / 2 ^ 53 \<noteq> ((1 + 1) / 2 - 0.15 :: real)
   \<and> objs (findRoute ''Pokhara'' ''Kathmandu'' (Rows [hugeRow]) (Rows [hugeRow]) init) 3 =
        Some (Polyline [(2 ^ 53, 0), (2 ^ 53, 0), (2 ^ 53, 0)] ''red'' 6 (Some routeASelected))
   \<and> 2 ^ 53 \<noteq> ((2 ^ 53 + 2 ^ 53) / 2 + 0.15 :: real)
   \<and> objs (findRoute ''Pokhara'' ''Kathmandu'' (Rows [hugeRow]) (Rows [hugeRow]) init) 4 =
        Some (Polyline [(2 ^ 53, 0), (2 ^ 53, 0), (2 ^ 53, 0)] ''green'' 6 (Some routeBSelected))
   \<and> 2 ^ 53 \<noteq> ((2 ^ 53 + 2 ^ 53) / 2 - 0.15 :: real)"
  using findRoute_ok_objs(3,4)[OF fresh_init trim_names(1,2), of unitRow "[]" unitRow "[]"]
        findRoute_ok_objs(3,4)[OF fresh_init trim_names(1,2), of hugeRow "[]" hugeRow "[]"]
  unfolding init_handles unit_routes huge_routes
  by simp

text \<open>
  C2, as the program has it: a search between two places of valid coordinates places
  exactly three hazard markers, in the order of the catalogue. Marker \<open>i\<close> stands at
  the midpoint with \<open>i * 0.05\<close> added to its latitude and \<open>i * 0.05\<close> subtracted
  from its longitude, up to the rounding of double arithmetic: each of its coordinates
  lies within \<open>2 ^ - 44\<close> of that value. The midpoint is the one the program computes
  (lines 113 and 114), itself within \<open>2 ^ - 45\<close> of the midpoint of the two places.
  Marker \<open>i\<close> carries the type and the reason of catalogue entry \<open>i\<close>: Flooding with
  "Heavy rainfall reported", Construction with "Ongoing road maintenance", Congestion
  with "High traffic volume".
\<close>

theorem three_hazard_annotations:
  assumes "fresh s" and "trim startText \<noteq> []" and "trim endText \<noteq> []"
    and "validCoordinate (row_lat d, row_lon d)" and "validCoordinate (row_lat e, row_lon e)"
    and "S = findRoute startText endText (Rows (d # ds)) (Rows (e # es)) s"
    and "mLat = jsDiv (jsAdd (row_lat d) (row_lat e)) 2"
    and "mLon = jsDiv (jsAdd (row_lon d) (row_lon e)) 2"
  shows "hazardMarkers S = [nextId s + 4, nextId s + 5, nextId s + 6]
       \<and> objs S (nextId s + 4) =
           Some (Marker (jsAdd mLat (jsMul 0 (toDouble 0.05)), jsSub mLon (jsMul 0 (toDouble 0.05)))
                   (DivIcon [Div (Style iconStyle) [Glyph 0x1F30A]])
                   (Some [Bold [Text ''Flooding''], Br, Text ''Heavy rainfall reported'', Br,
                          Italic [Text ''Simulated condition'']]) False)
       \<and> objs S (nextId s + 5) =
           Some (Marker (jsAdd mLat (jsMul 1 (toDouble 0.05)), jsSub mLon (jsMul 1 (toDouble 0.05)))
                   (DivIcon [Div (Style iconStyle) [Glyph 0x1F6A7]])
                   (Some [Bold [Text ''Construction''], Br, Text ''Ongoing road maintenance'', Br,
                          Italic [Text ''Simulated condition'']]) False)
       \<and> objs S (nextId s + 6) =
           Some (Marker (jsAdd mLat (jsMul 2 (toDouble 0.05)), jsSub mLon (jsMul 2 (toDouble 0.05)))
                   (DivIcon [Div (Style iconStyle) [Glyph 0x1F697]])
                   (Some [Bold [Text ''Congestion''], Br, Text ''High traffic volume'', Br,
                          Italic [Text ''Simulated condition'']]) False)
       \<and> \<bar>jsAdd mLat (jsMul 0 (toDouble 0.05)) - (mLat + 0 * 0.05)\<bar> \<le> 1 / 2 ^ 44
       \<and> \<bar>jsSub mLon (jsMul 0 (toDouble 0.05)) - (mLon - 0 * 0.05)\<bar> \<le> 1 / 2 ^ 44
       \<and> \<bar>jsAdd mLat (jsMul 1 (toDouble 0.05)) - (mLat + 1 * 0.05)\<bar> \<le> 1 / 2 ^ 44
       \<and> \<bar>jsSub mLon (jsMul 1 (toDouble 0.05)) - (mLon - 1 * 0.05)\<bar> \<le> 1 / 2 ^ 44
       \<and> \<bar>jsAdd mLat (jsMul 2 (toDouble 0.05)) - (mLat + 2 * 0.05)\<bar> \<le> 1 / 2 ^ 44
       \<and> \<bar>jsSub mLon (jsMul 2 (toDouble 0.05)) - (mLon - 2 * 0.05)\<bar> \<le> 1 / 2 ^ 44
       \<and> \<bar>mLat - (row_lat d + row_lat e) / 2\<bar> \<le> 1 / 2 ^ 45
       \<and> \<bar>mLon - (row_lon d + row_lon e) / 2\<bar> \<le> 1 / 2 ^ 45
       \<and> set (hazardMarkers S) \<subseteq> set (layers S)"
proof -
  note f = assms(1-3)
  note v = valid_bounds[OF assms(4)] valid_bounds[OF assms(5)]
  have w: "\<bar>row_lat d\<bar> \<le> 180" "\<bar>row_lat e\<bar> \<le> 180"
    using v(1,3) by linarith+
  have mLat: "\<bar>mLat - (row_lat d + row_lat e) / 2\<bar> \<le> 1 / 2 ^ 45" "\<bar>mLat\<bar> \<le> 181"
    unfolding assms(7) by (rule midpoint_near[OF w])+
  have mLon: "\<bar>mLon - (row_lon d + row_lon e) / 2\<bar> \<le> 1 / 2 ^ 45" "\<bar>mLon\<bar> \<le> 181"
    unfolding assms(8) by (rule midpoint_near[OF v(2,4)])+
  have pos: "\<bar>jsAdd mLat (jsMul 0 (toDouble 0.05)) - (mLat + 0 * 0.05)\<bar> \<le> 1 / 2 ^ 44"
      "\<bar>jsSub mLon (jsMul 0 (toDouble 0.05)) - (mLon - 0 * 0.05)\<bar> \<le> 1 / 2 ^ 44"
      "\<bar>jsAdd mLat (jsMul 1 (toDouble 0.05)) - (mLat + 1 * 0.05)\<bar> \<le> 1 / 2 ^ 44"
      "\<bar>jsSub mLon (jsMul 1 (toDouble 0.05)) - (mLon - 1 * 0.05)\<bar> \<le> 1 / 2 ^ 44"
      "\<bar>jsAdd mLat (jsMul 2 (toDouble 0.05)) - (mLat + 2 * 0.05)\<bar> \<le> 1 / 2 ^ 44"
      "\<bar>jsSub mLon (jsMul 2 (toDouble 0.05)) - (mLon - 2 * 0.05)\<bar> \<le> 1 / 2 ^ 44"
    using hazard_offsets(1-3)[OF mLat(2)] hazard_offsets(4-6)[OF mLon(2)] by simp_all
  have markers: "objs S (nextId s + 4) =
           Some (Marker (jsAdd mLat (jsMul 0 (toDouble 0.05)), jsSub mLon (jsMul 0 (toDouble 0.05)))
                   (DivIcon [Div (Style iconStyle) [Glyph 0x1F30A]])
                   (Some [Bold [Text ''Flooding''], Br, Text ''Heavy rainfall reported'', Br,
                          Italic [Text ''Simulated condition'']]) False)"
      "objs S (nextId s + 5) =
           Some (Marker (jsAdd mLat (jsMul 1 (toDouble 0.05)), jsSub mLon (jsMul 1 (toDouble 0.05)))
                   (DivIcon [Div (Style iconStyle) [Glyph 0x1F6A7]])
                   (Some [Bold [Text ''Construction''], Br, Text ''Ongoing road maintenance'', Br,
                          Italic [Text ''Simulated condition'']]) False)"
      "objs S (nextId s + 6) =
           Some (Marker (jsAdd mLat (jsMul 2 (toDouble 0.05)), jsSub mLon (jsMul 2 (toDouble 0.05)))
                   (DivIcon [Div (Style iconStyle) [Glyph 0x1F697]])
                   (Some [Bold [Text ''Congestion''], Br, Text ''High traffic volume'', Br,
                          Italic [Text ''Simulated condition'']]) False)"
    unfolding assms(6-8)
      findRoute_ok_objs(5-7)[OF f, where d = d and ds = ds and e = e and es = es] hazard_markup
    by (simp_all add: midLat_def midLon_def placeOf_def)
  have rest: "hazardMarkers S = [nextId s + 4, nextId s + 5, nextId s + 6]"
      "set (hazardMarkers S) \<subseteq> set (layers S)"
    unfolding assms(6)
    by (simp_all add: findRoute_ok_vars[OF f] findRoute_ok_layers[OF f])
  show ?thesis
    using pos markers mLat(1) mLon(1) rest by (simp only: simp_thms)
qed

theorem three_hazard_annotations_witness:
  "fresh init \<and> trim ''Pokhara'' \<noteq> [] \<and> trim ''Kathmandu'' \<noteq> []
   \<and> validCoordinate (row_lat pokhara, row_lon pokhara)
   \<and> validCoordinate (row_lat kathmandu, row_lon kathmandu)
   \<and> hazardMarkers (findRoute ''Pokhara'' ''Kathmandu'' (Rows [pokhara]) (Rows [kathmandu]) init)
        = [5, 6, 7]
   \<and> objs (findRoute ''Pokhara'' ''Kathmandu'' (Rows [pokhara]) (Rows [kathmandu]) init) 6 =
        Some (Marker (jsAdd (jsDiv (jsAdd (row_lat pokhara) (row_lat kathmandu)) 2)
                         (jsMul 1 (toDouble 0.05)),
                      jsSub (jsDiv (jsAdd (row_lon pokhara) (row_lon kathmandu)) 2)
                         (jsMul 1 (toDouble 0.05)))
                (DivIcon [Div (Style iconStyle) [Glyph 0x1F6A7]])
                (Some [Bold [Text ''Construction''], Br, Text ''Ongoing road maintenance'', Br,
                       Italic [Text ''Simulated condition'']]) False)
   \<and> \<bar>jsAdd (jsDiv (jsAdd (row_lat pokhara) (row_lat kathmandu)) 2) (jsMul 1 (toDouble 0.05))
        - (jsDiv (jsAdd (row_lat pokhara) (row_lat kathmandu)) 2 + 1 * 0.05)\<bar> \<le> 1 / 2 ^ 44
   \<and> \<bar>jsSub (jsDiv (jsAdd (row_lon pokhara) (row_lon kathmandu)) 2) (jsMul 1 (toDouble 0.05))
        - (jsDiv (jsAdd (row_lon pokhara) (row_lon kathmandu)) 2 - 1 * 0.05)\<bar> \<le> 1 / 2 ^ 44"
  using three_hazard_annotations[OF fresh_init trim_names(1,2) example_valid_coordinates refl refl refl,
          of "[]" "[]"]
  unfolding init_handles
  by (simp add: fresh_init trim_names example_valid_coordinates)

text \<open>
  Two inputs. Around the point (1, 1) the second marker stands at the doubles nearest
  to 1.05 and 0.95, which are not these numbers. Around latitude \<open>2 ^ 53\<close> the three
  markers all have the latitude of the midpoint: adding 0.05 or 0.1 to it changes
  nothing.
\<close>

theorem hazard_positions_not_exact_counterexample:
  "objs (findRoute ''Pokhara'' ''Kathmandu'' (Rows [unitRow]) (Rows [unitRow]) init) 6 =
        Some (Marker (4728779608739021 / 2 ^ 52, 4278419646001971 / 2 ^ 52)
                (DivIcon [Div (Style iconStyle) [Glyph 0x1F6A7]])
                (Some [Bold [Text ''Construction''], Br, Text ''Ongoing road maintenance'', Br,
                       Italic [Text ''Simulated condition'']]) False)
   \<and> midLat (placeOf unitRow) (placeOf unitRow) = 1
   \<and> midLon (placeOf unitRow) (placeOf unitRow) = 1
   \<and> 4728779608739021 / 2 ^ 52 \<noteq> (1 + 1 * 0.05 :: real)
   \<and> 4278419646001971 / 2 ^ 52 \<noteq> (1 - 1 * 0.05 :: real)
   \<and> objs (findRoute ''Pokhara'' ''Kathmandu'' (Rows [hugeRow]) (Rows [hugeRow]) init) 5 =
        Some (Marker (2 ^ 53, 0)
                (DivIcon [Div (Style iconStyle) [Glyph 0x1F30A]])
                (Some [Bold [Text ''Flooding''], Br, Text ''Heavy rainfall reported'', Br,
                       Italic [Text ''Simulated condition'']]) False)
   \<and> objs (findRoute ''Pokhara'' ''Kathmandu'' (Rows [hugeRow]) (Rows [hugeRow]) init) 6 =
        Some (Marker (2 ^ 53, - (3602879701896397 / 2 ^ 56))
                (DivIcon [Div (Style iconStyle) [Glyph 0x1F6A7]])
                (Some [Bold [Text ''Construction''], Br, Text ''Ongoing road maintenance'', Br,
                       Italic [Text ''Simulated condition'']]) False)
   \<and> objs (findRoute ''Pokhara'' ''Kathmandu'' (Rows [hugeRow]) (Rows [hugeRow]) init) 7 =
        Some (Marker (2 ^ 53, - (3602879701896397 / 2 ^ 55))
                (DivIcon [Div (Style iconStyle) [Glyph 0x1F697]])
                (Some [Bold [Text ''Congestion''], Br, Text ''High traffic volume'', Br,
                       Italic [Text ''Simulated condition'']]) False)
   \<and> midLat (placeOf hugeRow) (placeOf hugeRow) = 2 ^ 53
   \<and> 2 ^ 53 \<noteq> (2 ^ 53 + 1 * 0.05 :: real)
   \<and> 2 ^ 53 \<noteq> (2 ^ 53 + 2 * 0.05 :: real)"
proof -
  have unit: "objs (findRoute ''Pokhara'' ''Kathmandu'' (Rows [unitRow]) (Rows [unitRow]) init) 6 =
        Some (Marker (4728779608739021 / 2 ^ 52, 4278419646001971 / 2 ^ 52)
                (DivIcon [Div (Style iconStyle) [Glyph 0x1F6A7]])
                (Some [Bold [Text ''Construction''], Br, Text ''Ongoing road maintenance'', Br,
                       Italic [Text ''Simulated condition'']]) False)"
    using findRoute_ok_objs(6)[OF fresh_init trim_names(1,2), of unitRow "[]" unitRow "[]"]
    unfolding init_handles unit_mids jsMul_005 unit_hazard hazard_markup .
  have huge: "objs (findRoute ''Pokhara'' ''Kathmandu'' (Rows [hugeRow]) (Rows [hugeRow]) init) 5 =
        Some (Marker (2 ^ 53, 0)
                (DivIcon [Div (Style iconStyle) [Glyph 0x1F30A]])
                (Some [Bold [Text ''Flooding''], Br, Text ''Heavy rainfall reported'', Br,
                       Italic [Text ''Simulated condition'']]) False)"
     "objs (findRoute ''Pokhara'' ''Kathmandu'' (Rows [hugeRow]) (Rows [hugeRow]) init) 6 =
        Some (Marker (2 ^ 53, - (3602879701896397 / 2 ^ 56))
                (DivIcon [Div (Style iconStyle) [Glyph 0x1F6A7]])
                (Some [Bold [Text ''Construction''], Br, Text ''Ongoing road maintenance'', Br,
                       Italic [Text ''Simulated condition'']]) False)"
     "objs (findRoute ''Pokhara'' ''Kathmandu'' (Rows [hugeRow]) (Rows [hugeRow]) init) 7 =
        Some (Marker (2 ^ 53, - (3602879701896397 / 2 ^ 55))
                (DivIcon [Div (Style iconStyle) [Glyph 0x1F697]])
                (Some [Bold [Text ''Congestion''], Br, Text ''High traffic volume'', Br,
                       Italic [Text ''Simulated condition'']]) False)"
    using findRoute_ok_objs(5-7)[OF fresh_init trim_names(1,2), of hugeRow "[]" hugeRow "[]"]
    unfolding init_handles huge_mids jsMul_005 huge_hazard hazard_markup .
  have ne: "4728779608739021 / 2 ^ 52 \<noteq> (1 + 1 * 0.05 :: real)"
      "4278419646001971 / 2 ^ 52 \<noteq> (1 - 1 * 0.05 :: real)"
      "2 ^ 53 \<noteq> (2 ^ 53 + 1 * 0.05 :: real)"
      "2 ^ 53 \<noteq> (2 ^ 53 + 2 * 0.05 :: real)"
    by simp_all
  show ?thesis
    using unit huge unit_mids huge_mids(1) ne by (simp only: simp_thms)
qed



text \<open>
  C4, as the program has it: after a search that resolved both places, whatever the
  coordinates, a click on route A shows "Route A Selected" with the sentence
  "Recommended when speed is critical.", and a click on route B shows
  "Route B Selected" with the sentence "Recommended for safer and consistent travel.";
  a selection replaces an earlier one.
\<close>

theorem selection_shows_fixed_explanation:
  assumes "fresh s" and "trim startText \<noteq> []" and "trim endText \<noteq> []"
    and "S = findRoute startText endText (Rows (d # ds)) (Rows (e # es)) s"
  shows "routeA S = Some (nextId s + 2) \<and> routeB S = Some (nextId s + 3)
       \<and> result (click (nextId s + 2) S) =
           [ Div (Class ''route-selected'')
               [ Glyph 0x1F534, Text '' '', Bold [Text ''Route A Selected''], Br,
                 Text ''Recommended when speed is critical.'' ] ]
       \<and> result (click (nextId s + 3) S) =
           [ Div (Class ''route-selected'')
               [ Glyph 0x1F7E2, Text '' '', Bold [Text ''Route B Selected''], Br,
                 Text ''Recommended for safer and consistent travel.'' ] ]
       \<and> result (click (nextId s + 2) (click (nextId s + 3) S)) = result (click (nextId s + 2) S)
       \<and> result (click (nextId s + 3) (click (nextId s + 2) S)) = result (click (nextId s + 3) S)"
proof -
  note o = findRoute_ok_objs(3,4)[OF assms(1-3), where d = d and ds = ds and e = e and es = es]
  have inA: "nextId s + 2 \<in> set (layers S)" and inB: "nextId s + 3 \<in> set (layers S)"
    unfolding assms(4) by (simp_all add: findRoute_ok_shown[OF assms(1-3)])
  have cA: "click (nextId s + 2) S = S\<lparr> result := routeASelected \<rparr>"
    using inA o(1) unfolding assms(4) by (rule click_handler)
  have cB: "click (nextId s + 3) S = S\<lparr> result := routeBSelected \<rparr>"
    using inB o(2) unfolding assms(4) by (rule click_handler)
  have cAB: "click (nextId s + 2) (S\<lparr> result := routeBSelected \<rparr>) = S\<lparr> result := routeASelected \<rparr>"
    using inA o(1) unfolding assms(4) by (simp add: click_def)
  have cBA: "click (nextId s + 3) (S\<lparr> result := routeASelected \<rparr>) = S\<lparr> result := routeBSelected \<rparr>"
    using inB o(2) unfolding assms(4) by (simp add: click_def)
  have v: "routeA S = Some (nextId s + 2)" "routeB S = Some (nextId s + 3)"
    unfolding assms(4) by (simp_all add: findRoute_ok_vars[OF assms(1-3)])
  show ?thesis
    unfolding cA cB cAB cBA using v by (simp add: routeASelected_def routeBSelected_def)
qed

theorem selection_shows_fixed_explanation_witness:
  "fresh init \<and> trim ''Pokhara'' \<noteq> [] \<and> trim ''Kathmandu'' \<noteq> []
   \<and> result (click 3 (findRoute ''Pokhara'' ''Kathmandu'' (Rows [pokhara]) (Rows [kathmandu]) init)) =
           [ Div (Class ''route-selected'')
               [ Glyph 0x1F534, Text '' '', Bold [Text ''Route A Selected''], Br,
                 Text ''Recommended when speed is critical.'' ] ]
   \<and> result (click 4 (findRoute ''Pokhara'' ''Kathmandu'' (Rows [pokhara]) (Rows [kathmandu]) init)) =
           [ Div (Class ''route-selected'')
               [ Glyph 0x1F7E2, Text '' '', Bold [Text ''Route B Selected''], Br,
                 Text ''Recommended for safer and consistent travel.'' ] ]"
  using selection_shows_fixed_explanation[OF fresh_init trim_names(1,2) refl,
          of pokhara "[]" kathmandu "[]"]
  unfolding init_handles
  by (simp add: fresh_init trim_names)

text \<open>
  The words "safer, more reliable travel" occur nowhere in what a click on route B
  shows.
\<close>

theorem safer_explanation_text_counterexample:
  "\<not> sublist ''safer, more reliable travel''
       (concat (map textContent
          (result (click 4 (findRoute ''Pokhara'' ''Kathmandu'' (Rows [pokhara]) (Rows [kathmandu]) init)))))"
proof
  let ?S = "findRoute ''Pokhara'' ''Kathmandu'' (Rows [pokhara]) (Rows [kathmandu]) init"
  have "click (nextId init + 3) ?S = ?S\<lparr> result := routeBSelected \<rparr>"
    using findRoute_ok_shown[OF fresh_init trim_names(1,2)]
          findRoute_ok_objs(4)[OF fresh_init trim_names(1,2)]
    by (intro click_handler) simp_all
  then have r: "result (click 4 ?S) = routeBSelected"
    unfolding init_handles by simp
  assume "sublist ''safer, more reliable travel'' (concat (map textContent (result (click 4 ?S))))"
  then have "set ''safer, more reliable travel'' \<subseteq> set (concat (map textContent routeBSelected))"
    unfolding r by (rule set_mono_sublist)
  then have "CHR '','' \<in> set (concat (map textContent routeBSelected))"
    by auto
  then show False
    by (simp add: routeBSelected_def)
qed

text \<open>
  C5: when the start text or the destination text is empty after trimming, the search
  only shows the alert that asks for both locations: nothing else of the state changes,
  and in particular no request is sent to the geocoding service.
\<close>

theorem empty_input_is_rejected_without_request:
  assumes "trim startText = [] \<or> trim endText = []"
  shows "findRoute startText endText r1 r2 s =
           s\<lparr> alerts := alerts s @ [''Please enter both start and destination locations.''] \<rparr>
       \<and> requests (findRoute startText endText r1 r2 s) = requests s
       \<and> step (Search startText endText) (ps, s) =
           (ps @ [Finished],
            s\<lparr> alerts := alerts s @ [''Please enter both start and destination locations.''] \<rparr>)"
  using assms by (simp add: findRoute_empty findRoute_begin_empty)

theorem empty_input_is_rejected_without_request_witness:
  "(trim '''' = [] \<or> trim ''Kathmandu'' = [])
   \<and> alerts (findRoute '''' ''Kathmandu'' (Rows [pokhara]) (Rows [kathmandu]) init) =
         [''Please enter both start and destination locations.'']
   \<and> requests (findRoute '''' ''Kathmandu'' (Rows [pokhara]) (Rows [kathmandu]) init) = []
   \<and> (trim ''Pokhara'' = [] \<or> trim ''   '' = [])
   \<and> requests (findRoute ''Pokhara'' ''   '' (Rows [pokhara]) (Rows [kathmandu]) init) = []"
proof -
  have h1: "trim '''' = [] \<or> trim ''Kathmandu'' = []"
    by (simp add: trim_def)
  have h2: "trim ''Pokhara'' = [] \<or> trim ''   '' = []"
    by (simp add: trim_def isWhiteSpace_def)
  show ?thesis
    using h1 h2
      empty_input_is_rejected_without_request[OF h1, of "Rows [pokhara]" "Rows [kathmandu]" init "[]"]
      empty_input_is_rejected_without_request[OF h2, of "Rows [pokhara]" "Rows [kathmandu]" init "[]"]
    by (simp add: init_def)
qed

text \<open>
  C6: clearing is idempotent. Clearing twice is the same as clearing once; clearing when
  no hazard marker is held and no tracked overlay is on the map changes nothing, as on
  the initial state. \<open>clearMap\<close> is a total function: it has no error to report.
\<close>

theorem clearMap_idempotent:
  "clearMap (clearMap s) = clearMap s
   \<and> (hazardMarkers s = [] \<and> set (layers s) \<inter> tracked s = {} \<longrightarrow> clearMap s = s)
   \<and> clearMap init = init"
proof (intro conjI impI)
  show "clearMap (clearMap s) = clearMap s"
    by (simp add: clearMap_eq tracked_def conj_ac) 
next
  assume a: "hazardMarkers s = [] \<and> set (layers s) \<inter> tracked s = {}"
  then have "filter (\<lambda>h. h \<notin> tracked s) (layers s) = layers s"
    by (auto simp: filter_id_conv)
  with a show "clearMap s = s"
    by (simp add: clearMap_eq)
next
  show "clearMap init = init"
    by (simp add: clearMap_eq tracked_def init_def)
qed

theorem clearMap_idempotent_witness:
  "(hazardMarkers (clearMap (findRoute ''Pokhara'' ''Kathmandu'' (Rows [pokhara]) (Rows [kathmandu]) init)) = []
     \<and> set (layers (clearMap (findRoute ''Pokhara'' ''Kathmandu'' (Rows [pokhara]) (Rows [kathmandu]) init)))
        \<inter> tracked (clearMap (findRoute ''Pokhara'' ''Kathmandu'' (Rows [pokhara]) (Rows [kathmandu]) init)) = {})
   \<and> clearMap (clearMap (findRoute ''Pokhara'' ''Kathmandu'' (Rows [pokhara]) (Rows [kathmandu]) init))
       = clearMap (findRoute ''Pokhara'' ''Kathmandu'' (Rows [pokhara]) (Rows [kathmandu]) init)
   \<and> layers (clearMap (findRoute ''Pokhara'' ''Kathmandu'' (Rows [pokhara]) (Rows [kathmandu]) init)) = [0]"
proof -
  have h: "hazardMarkers (clearMap (findRoute ''Pokhara'' ''Kathmandu'' (Rows [pokhara]) (Rows [kathmandu]) init)) = []
     \<and> set (layers (clearMap (findRoute ''Pokhara'' ''Kathmandu'' (Rows [pokhara]) (Rows [kathmandu]) init)))
        \<inter> tracked (clearMap (findRoute ''Pokhara'' ''Kathmandu'' (Rows [pokhara]) (Rows [kathmandu]) init)) = {}"
    by (simp add: clearMap_eq tracked_def search1_fields)
  have l: "layers (clearMap (findRoute ''Pokhara'' ''Kathmandu'' (Rows [pokhara]) (Rows [kathmandu]) init)) = [0]"
    by (simp add: clearMap_eq tracked_def search1_fields)
  from h l clearMap_idempotent[of "clearMap (findRoute ''Pokhara'' ''Kathmandu'' (Rows [pokhara]) (Rows [kathmandu]) init)"]
  show ?thesis by simp
qed

text \<open>
  C7, as the program has it: when start and destination have the same, valid
  coordinates the search succeeds as for any other pair (the only division is by the
  constant 2); both paths start and end at that point, and they keep their interior
  points, the one of path A 0.15 of latitude above the point and the one of path B 0.15
  below it, up to rounding (within \<open>2 ^ - 44\<close>), so neither path has zero length and
  the two paths differ.
\<close>

theorem same_place_routes:
  assumes "fresh s" and "trim startText \<noteq> []" and "trim endText \<noteq> []"
    and "row_lat e = row_lat d" and "row_lon e = row_lon d"
    and "validCoordinate (row_lat d, row_lon d)"
    and "S = findRoute startText endText (Rows (d # ds)) (Rows (e # es)) s"
  shows "result S = routesFound
       \<and> objs S (nextId s + 2) =
           Some (Polyline [ (row_lat d, row_lon d),
                            (jsAdd (jsDiv (jsAdd (row_lat d) (row_lat d)) 2) (toDouble 0.15),
                             jsDiv (jsAdd (row_lon d) (row_lon d)) 2),
                            (row_lat d, row_lon d) ] ''red'' 6 (Some routeASelected))
       \<and> objs S (nextId s + 3) =
           Some (Polyline [ (row_lat d, row_lon d),
                            (jsSub (jsDiv (jsAdd (row_lat d) (row_lat d)) 2) (toDouble 0.15),
                             jsDiv (jsAdd (row_lon d) (row_lon d)) 2),
                            (row_lat d, row_lon d) ] ''green'' 6 (Some routeBSelected))
       \<and> jsSub (jsDiv (jsAdd (row_lat d) (row_lat d)) 2) (toDouble 0.15) < row_lat d
       \<and> row_lat d < jsAdd (jsDiv (jsAdd (row_lat d) (row_lat d)) 2) (toDouble 0.15)
       \<and> \<bar>jsAdd (jsDiv (jsAdd (row_lat d) (row_lat d)) 2) (toDouble 0.15) - (row_lat d + 0.15)\<bar>
           \<le> 1 / 2 ^ 44
       \<and> \<bar>jsSub (jsDiv (jsAdd (row_lat d) (row_lat d)) 2) (toDouble 0.15) - (row_lat d - 0.15)\<bar>
           \<le> 1 / 2 ^ 44
       \<and> \<not> zeroLength [ (row_lat d, row_lon d),
                        (jsAdd (jsDiv (jsAdd (row_lat d) (row_lat d)) 2) (toDouble 0.15),
                         jsDiv (jsAdd (row_lon d) (row_lon d)) 2),
                        (row_lat d, row_lon d) ]
       \<and> \<not> zeroLength [ (row_lat d, row_lon d),
                        (jsSub (jsDiv (jsAdd (row_lat d) (row_lat d)) 2) (toDouble 0.15),
                         jsDiv (jsAdd (row_lon d) (row_lon d)) 2),
                        (row_lat d, row_lon d) ]"
proof -
  have v: "\<bar>row_lat d\<bar> \<le> 90"
    using assms(6) by (simp add: validCoordinate_def abs_le_iff)
  have up: "row_lat d < jsAdd (jsDiv (jsAdd (row_lat d) (row_lat d)) 2) (toDouble 0.15)"
    using v by (rule same_point_offsets)
  have down: "jsSub (jsDiv (jsAdd (row_lat d) (row_lat d)) 2) (toDouble 0.15) < row_lat d"
    using v by (rule same_point_offsets)
  show ?thesis
    using up down same_point_offsets(3,4)[OF v]
      findRoute_ok_objs(3,4)[OF assms(1-3), where d = d and ds = ds and e = e and es = es]
    unfolding assms(7)
    by (simp add: findRoute_ok_vars[OF assms(1-3)] assms(4,5) zeroLength_def
          routeAcoords_def routeBcoords_def midLat_def midLon_def placeOf_def)
qed

theorem same_place_routes_witness:
  "fresh init \<and> trim ''Pokhara'' \<noteq> [] \<and> row_lat pokhara = row_lat pokhara
   \<and> row_lon pokhara = row_lon pokhara
   \<and> validCoordinate (row_lat pokhara, row_lon pokhara)
   \<and> result (findRoute ''Pokhara'' ''Pokhara'' (Rows [pokhara]) (Rows [pokhara]) init) = routesFound
   \<and> jsSub (jsDiv (jsAdd (row_lat pokhara) (row_lat pokhara)) 2) (toDouble 0.15) < row_lat pokhara
   \<and> row_lat pokhara < jsAdd (jsDiv (jsAdd (row_lat pokhara) (row_lat pokhara)) 2) (toDouble 0.15)"
proof -
  have v: "validCoordinate (row_lat pokhara, row_lon pokhara)"
    using example_valid(1,2) by (simp add: validCoordinate_def abs_le_iff)
  show ?thesis
    using v same_place_routes[where d = pokhara and e = pokhara and ds = "[]" and es = "[]",
            OF fresh_init trim_names(1,1) refl refl v refl]
    by (simp add: fresh_init trim_names)
qed

text \<open>
  For start and destination both at Pokhara, the two paths leave the point and come
  back: they do not have zero length.
\<close>

theorem same_place_not_degenerate_counterexample:
  "objs (findRoute ''Pokhara'' ''Pokhara'' (Rows [pokhara]) (Rows [pokhara]) init) 3 =
        Some (Polyline [ (row_lat pokhara, row_lon pokhara),
                         (jsAdd (jsDiv (jsAdd (row_lat pokhara) (row_lat pokhara)) 2) (toDouble 0.15),
                          jsDiv (jsAdd (row_lon pokhara) (row_lon pokhara)) 2),
                         (row_lat pokhara, row_lon pokhara) ]
                ''red'' 6 (Some routeASelected))
   \<and> objs (findRoute ''Pokhara'' ''Pokhara'' (Rows [pokhara]) (Rows [pokhara]) init) 4 =
        Some (Polyline [ (row_lat pokhara, row_lon pokhara),
                         (jsSub (jsDiv (jsAdd (row_lat pokhara) (row_lat pokhara)) 2) (toDouble 0.15),
                          jsDiv (jsAdd (row_lon pokhara) (row_lon pokhara)) 2),
                         (row_lat pokhara, row_lon pokhara) ]
                ''green'' 6 (Some routeBSelected))
   \<and> \<not> zeroLength [ (row_lat pokhara, row_lon pokhara),
                    (jsAdd (jsDiv (jsAdd (row_lat pokhara) (row_lat pokhara)) 2) (toDouble 0.15),
                     jsDiv (jsAdd (row_lon pokhara) (row_lon pokhara)) 2),
                    (row_lat pokhara, row_lon pokhara) ]
   \<and> \<not> zeroLength [ (row_lat pokhara, row_lon pokhara),
                    (jsSub (jsDiv (jsAdd (row_lat pokhara) (row_lat pokhara)) 2) (toDouble 0.15),
                     jsDiv (jsAdd (row_lon pokhara) (row_lon pokhara)) 2),
                    (row_lat pokhara, row_lon pokhara) ]"
proof -
  have up: "row_lat pokhara
      < jsAdd (jsDiv (jsAdd (row_lat pokhara) (row_lat pokhara)) 2) (toDouble 0.15)"
    using example_valid(1) by (rule same_point_offsets)
  have down: "jsSub (jsDiv (jsAdd (row_lat pokhara) (row_lat pokhara)) 2) (toDouble 0.15)
      < row_lat pokhara"
    using example_valid(1) by (rule same_point_offsets)
  show ?thesis
    using up down
      findRoute_ok_objs(3,4)[OF fresh_init trim_names(1,1), of pokhara "[]" pokhara "[]"]
    unfolding init_handles
    by (simp add: zeroLength_def routeAcoords_def routeBcoords_def midLat_def midLon_def
          placeOf_def)
qed

text \<open>
  C8, as the program has it: the range of a coordinate is never checked, and the program
  has no error for an invalid coordinate. When both places resolve to numbers of
  magnitude at most 1000, whether or not a latitude lies outside [-90, 90] or a
  longitude outside [-180, 180], the search shows no error and draws its two routes as
  for any other pair: from the start to the destination through the midpoint with 0.15
  added to, or subtracted from, its latitude, up to the rounding of double arithmetic
  (within \<open>2 ^ - 41\<close>).
\<close>

theorem out_of_range_gets_its_routes:
  assumes "fresh s" and "trim startText \<noteq> []" and "trim endText \<noteq> []"
    and "\<bar>row_lat d\<bar> \<le> 1000" and "\<bar>row_lon d\<bar> \<le> 1000"
    and "\<bar>row_lat e\<bar> \<le> 1000" and "\<bar>row_lon e\<bar> \<le> 1000"
    and "S = findRoute startText endText (Rows (d # ds)) (Rows (e # es)) s"
    and "latA = jsAdd (jsDiv (jsAdd (row_lat d) (row_lat e)) 2) (toDouble 0.15)"
    and "latB = jsSub (jsDiv (jsAdd (row_lat d) (row_lat e)) 2) (toDouble 0.15)"
    and "lonM = jsDiv (jsAdd (row_lon d) (row_lon e)) 2"
  shows "result S = routesFound
       \<and> alerts S = alerts s
       \<and> routeA S = Some (nextId s + 2)
       \<and> routeB S = Some (nextId s + 3)
       \<and> objs S (nextId s + 2) =
           Some (Polyline [(row_lat d, row_lon d), (latA, lonM), (row_lat e, row_lon e)]
                   ''red'' 6 (Some routeASelected))
       \<and> objs S (nextId s + 3) =
           Some (Polyline [(row_lat d, row_lon d), (latB, lonM), (row_lat e, row_lon e)]
                   ''green'' 6 (Some routeBSelected))
       \<and> \<bar>latA - ((row_lat d + row_lat e) / 2 + 0.15)\<bar> \<le> 1 / 2 ^ 41
       \<and> \<bar>latB - ((row_lat d + row_lat e) / 2 - 0.15)\<bar> \<le> 1 / 2 ^ 41
       \<and> \<bar>lonM - (row_lon d + row_lon e) / 2\<bar> \<le> 1 / 2 ^ 41
       \<and> nextId s + 2 \<in> set (layers S)
       \<and> nextId s + 3 \<in> set (layers S)"
proof -
  note f = assms(1-3)
  have A: "\<bar>latA - ((row_lat d + row_lat e) / 2 + 0.15)\<bar> \<le> 1 / 2 ^ 41"
    unfolding assms(9) using offsets_wide(1)[OF assms(4,6)] by simp
  have B: "\<bar>latB - ((row_lat d + row_lat e) / 2 - 0.15)\<bar> \<le> 1 / 2 ^ 41"
    unfolding assms(10) using offsets_wide(2)[OF assms(4,6)] by simp
  have M: "\<bar>lonM - (row_lon d + row_lon e) / 2\<bar> \<le> 1 / 2 ^ 41"
    unfolding assms(11) by (rule offsets_wide(3)[OF assms(5,7)])
  have paths: "objs S (nextId s + 2) =
           Some (Polyline [(row_lat d, row_lon d), (latA, lonM), (row_lat e, row_lon e)]
                   ''red'' 6 (Some routeASelected))"
      "objs S (nextId s + 3) =
           Some (Polyline [(row_lat d, row_lon d), (latB, lonM), (row_lat e, row_lon e)]
                   ''green'' 6 (Some routeBSelected))"
    unfolding assms(8-11)
    using findRoute_ok_objs(3,4)[OF f, where d = d and ds = ds and e = e and es = es]
    by (simp_all add: routeAcoords_def routeBcoords_def midLat_def midLon_def placeOf_def)
  have quiet: "alerts S = alerts s"
    unfolding assms(8) using f
    by (simp add: findRoute_ok install_vars fresh_pre[OF assms(1)] pre_fields)
  have rest: "result S = routesFound"
      "routeA S = Some (nextId s + 2)" "routeB S = Some (nextId s + 3)"
      "nextId s + 2 \<in> set (layers S)" "nextId s + 3 \<in> set (layers S)"
    unfolding assms(8)
    by (simp_all add: findRoute_ok_vars[OF f] findRoute_ok_layers[OF f])
  show ?thesis
    using A B M paths quiet rest by (simp only: simp_thms)
qed

theorem out_of_range_gets_its_routes_witness:
  "fresh init \<and> trim ''Pokhara'' \<noteq> [] \<and> trim ''Kathmandu'' \<noteq> []
   \<and> \<bar>row_lat outOfRange\<bar> \<le> 1000 \<and> \<bar>row_lon outOfRange\<bar> \<le> 1000
   \<and> \<bar>row_lat kathmandu\<bar> \<le> 1000 \<and> \<bar>row_lon kathmandu\<bar> \<le> 1000
   \<and> \<not> validCoordinate (row_lat outOfRange, row_lon outOfRange)
   \<and> result (findRoute ''Pokhara'' ''Kathmandu'' (Rows [outOfRange]) (Rows [kathmandu]) init)
        = routesFound
   \<and> alerts (findRoute ''Pokhara'' ''Kathmandu'' (Rows [outOfRange]) (Rows [kathmandu]) init) = []
   \<and> routeA (findRoute ''Pokhara'' ''Kathmandu'' (Rows [outOfRange]) (Rows [kathmandu]) init) = Some 3
   \<and> routeB (findRoute ''Pokhara'' ''Kathmandu'' (Rows [outOfRange]) (Rows [kathmandu]) init) = Some 4
   \<and> \<bar>jsAdd (jsDiv (jsAdd (row_lat outOfRange) (row_lat kathmandu)) 2) (toDouble 0.15)
        - ((row_lat outOfRange + row_lat kathmandu) / 2 + 0.15)\<bar> \<le> 1 / 2 ^ 41"
proof -
  have b: "\<bar>row_lat outOfRange\<bar> \<le> 1000" "\<bar>row_lon outOfRange\<bar> \<le> 1000"
      "\<bar>row_lat kathmandu\<bar> \<le> 1000" "\<bar>row_lon kathmandu\<bar> \<le> 1000"
    using example_valid(3,4) by (simp_all add: outOfRange_def)
  show ?thesis
    using b out_of_range_gets_its_routes[OF fresh_init trim_names(1,2) b refl refl refl refl,
            of "[]" "[]"]
    unfolding init_handles
    by (simp add: fresh_init trim_names init_fields validCoordinate_def outOfRange_def)
qed

text \<open>
  A start at latitude 100 and longitude 200 is not a valid coordinate, and the search
  draws its two routes from there.
\<close>

theorem out_of_range_is_accepted_counterexample:
  "\<not> validCoordinate (row_lat outOfRange, row_lon outOfRange)
   \<and> result (findRoute ''Pokhara'' ''Kathmandu'' (Rows [outOfRange]) (Rows [kathmandu]) init)
        = routesFound
   \<and> objs (findRoute ''Pokhara'' ''Kathmandu'' (Rows [outOfRange]) (Rows [kathmandu]) init) 3 =
        Some (Polyline [ (100, 200),
                         (jsAdd (jsDiv (jsAdd 100 (row_lat kathmandu)) 2) (toDouble 0.15),
                          jsDiv (jsAdd 200 (row_lon kathmandu)) 2),
                         (row_lat kathmandu, row_lon kathmandu) ]
                ''red'' 6 (Some routeASelected))
   \<and> objs (findRoute ''Pokhara'' ''Kathmandu'' (Rows [outOfRange]) (Rows [kathmandu]) init) 4 =
        Some (Polyline [ (100, 200),
                         (jsSub (jsDiv (jsAdd 100 (row_lat kathmandu)) 2) (toDouble 0.15),
                          jsDiv (jsAdd 200 (row_lon kathmandu)) 2),
                         (row_lat kathmandu, row_lon kathmandu) ]
                ''green'' 6 (Some routeBSelected))"
  using findRoute_ok_objs(3,4)[OF fresh_init trim_names(1,2), of outOfRange "[]" kathmandu "[]"]
        findRoute_ok_vars(6)[OF fresh_init trim_names(1,2), of outOfRange "[]" kathmandu "[]"]
  unfolding init_handles
  by (simp add: validCoordinate_def routeAcoords_def routeBcoords_def midLat_def midLon_def
        placeOf_def example_rows)

text \<open>
  C9, as the program has it: nothing marks a search as superseded. When the response
  for the destination of a suspended search arrives, in whatever state the page is by
  then, the search installs its session: its seven layers are added to those on the map,
  none is removed, the session variables are set to its handles and its hazard markers
  are appended to those already held.
\<close>

theorem late_response_installs_its_session:
  assumes "fresh s" and "k < length ps" and "ps ! k = AwaitEnd start"
    and "S = snd (step (Response k (Rows (d # ds))) (ps, s))"
  shows "fst (step (Response k (Rows (d # ds))) (ps, s)) = ps[k := Finished]
       \<and> layers S = layers s @ [nextId s ..< nextId s + 7]
       \<and> startMarker S = Some (nextId s) \<and> endMarker S = Some (nextId s + 1)
       \<and> routeA S = Some (nextId s + 2) \<and> routeB S = Some (nextId s + 3)
       \<and> hazardMarkers S = hazardMarkers s @ [nextId s + 4, nextId s + 5, nextId s + 6]
       \<and> objs S (nextId s + 2) =
           Some (Polyline [ (lat start, lon start),
                            (jsAdd (jsDiv (jsAdd (lat start) (row_lat d)) 2) (toDouble 0.15),
                             jsDiv (jsAdd (lon start) (row_lon d)) 2),
                            (row_lat d, row_lon d) ] ''red'' 6 (Some routeASelected))
       \<and> objs S (nextId s + 3) =
           Some (Polyline [ (lat start, lon start),
                            (jsSub (jsDiv (jsAdd (lat start) (row_lat d)) 2) (toDouble 0.15),
                             jsDiv (jsAdd (lon start) (row_lon d)) 2),
                            (row_lat d, row_lon d) ] ''green'' 6 (Some routeBSelected))
       \<and> result S = routesFound"
  using assms(2,3) install_objs(3,4)[OF assms(1), of start "placeOf d"]
  unfolding assms(4)
  by (simp add: resume_ok install_layers[OF assms(1)] install_vars[OF assms(1)]
        routeAcoords_def routeBcoords_def midLat_def midLon_def placeOf_def
      del: resume.simps)

theorem late_response_installs_its_session_witness:
  "fresh (snd (run (overtaken @ [Response 0 (Rows [pokhara])])))
   \<and> 0 < length (fst (run (overtaken @ [Response 0 (Rows [pokhara])])))
   \<and> fst (run (overtaken @ [Response 0 (Rows [pokhara])])) ! 0 = AwaitEnd (placeOf pokhara)
   \<and> layers (snd (run (overtaken @ [Response 0 (Rows [pokhara]), Response 0 (Rows [kathmandu])])))
        = [0, 1, 2, 3, 4, 5, 6, 7, 8, 9, 10, 11, 12, 13, 14]
   \<and> routeA (snd (run (overtaken @ [Response 0 (Rows [pokhara]), Response 0 (Rows [kathmandu])])))
        = Some 10
   \<and> hazardMarkers (snd (run (overtaken @ [Response 0 (Rows [pokhara]), Response 0 (Rows [kathmandu])])))
        = [5, 6, 7, 12, 13, 14]"
proof -
  have r: "run (overtaken @ [Response 0 (Rows [pokhara]), Response 0 (Rows [kathmandu])])
         = step (Response 0 (Rows [kathmandu]))
             ([AwaitEnd (placeOf pokhara), Finished], request ''Kathmandu'' (snd (run overtaken)))"
    using run_snoc[of "overtaken @ [Response 0 (Rows [pokhara])]" "Response 0 (Rows [kathmandu])"]
    by (simp add: run_stale_start)
  have k: "0 < length [AwaitEnd (placeOf pokhara), Finished]"
    by simp
  have p: "[AwaitEnd (placeOf pokhara), Finished] ! 0 = AwaitEnd (placeOf pokhara)"
    by simp
  show ?thesis
    using late_response_installs_its_session[OF stale_start_fields(1) k p refl, of kathmandu "[]"]
    unfolding stale_handles r run_stale_start
    by (simp add: stale_start_fields upt_rec)
qed

text \<open>
  In the schedule \<open>overtaken\<close> the second search (Biratnagar to Dharan) installs its
  session first: \<open>routeA\<close> is its route, layer 3. When the responses of the first search
  (Pokhara to Kathmandu) arrive afterwards, \<open>routeA\<close> is set to the route from Pokhara to
  Kathmandu, layer 10, and the layers of both searches are on the map.
\<close>

theorem stale_search_overwrites_counterexample:
  "routeA (snd (run overtaken)) = Some 3
   \<and> objs (snd (run overtaken)) 3 =
        Some (Polyline (routeAcoords (placeOf biratnagar) (placeOf dharan))
                ''red'' 6 (Some routeASelected))
   \<and> routeA (snd (run (overtaken @ [Response 0 (Rows [pokhara]), Response 0 (Rows [kathmandu])])))
        = Some 10
   \<and> objs (snd (run (overtaken @ [Response 0 (Rows [pokhara]), Response 0 (Rows [kathmandu])]))) 10 =
        Some (Polyline (routeAcoords (placeOf pokhara) (placeOf kathmandu))
                ''red'' 6 (Some routeASelected))
   \<and> hd (routeAcoords (placeOf pokhara) (placeOf kathmandu)) = (row_lat pokhara, row_lon pokhara)
   \<and> layers (snd (run (overtaken @ [Response 0 (Rows [pokhara]), Response 0 (Rows [kathmandu])])))
        = [0, 1, 2, 3, 4, 5, 6, 7, 8, 9, 10, 11, 12, 13, 14]"
proof -
  have r: "run (overtaken @ [Response 0 (Rows [pokhara]), Response 0 (Rows [kathmandu])])
         = (([AwaitEnd (placeOf pokhara), Finished])[0 := Finished],
            install (placeOf pokhara) (placeOf kathmandu) (request ''Kathmandu'' (snd (run overtaken))))"
    using run_snoc[of "overtaken @ [Response 0 (Rows [pokhara])]" "Response 0 (Rows [kathmandu])"]
    by (simp add: run_stale_start resume_ok del: resume.simps)
  show ?thesis
    using install_objs(3)[OF stale_start_fields(1), of "placeOf pokhara" "placeOf kathmandu"]
          install_vars(3)[OF stale_start_fields(1), of "placeOf pokhara" "placeOf kathmandu"]
          install_layers[OF stale_start_fields(1), of "placeOf pokhara" "placeOf kathmandu"]
    unfolding stale_handles r
    by (simp add: overtaken_fields overtaken_routeA stale_start_fields upt_rec
          routeAcoords_def placeOf_def)
qed

text \<open>
  C10, as the program has it: for every pair of resolved coordinates whose latitudes
  lie between -90 and 90, also when start and destination are the same, the two paths
  are not the same: they share their endpoints and the longitude of their interior
  points, and the interior latitude of path A is above that of path B. The two are 0.3
  apart only up to the rounding of the operations that compute them: their difference
  lies within \<open>2 ^ - 44\<close> of 0.3.
\<close>

theorem interior_latitudes_apart:
  assumes "fresh s" and "trim startText \<noteq> []" and "trim endText \<noteq> []"
    and "\<bar>row_lat d\<bar> \<le> 90" and "\<bar>row_lat e\<bar> \<le> 90"
    and "S = findRoute startText endText (Rows (d # ds)) (Rows (e # es)) s"
    and "latA = jsAdd (jsDiv (jsAdd (row_lat d) (row_lat e)) 2) (toDouble 0.15)"
    and "latB = jsSub (jsDiv (jsAdd (row_lat d) (row_lat e)) 2) (toDouble 0.15)"
  shows "objs S (nextId s + 2) =
           Some (Polyline [ (row_lat d, row_lon d),
                            (latA, jsDiv (jsAdd (row_lon d) (row_lon e)) 2),
                            (row_lat e, row_lon e) ] ''red'' 6 (Some routeASelected))
       \<and> objs S (nextId s + 3) =
           Some (Polyline [ (row_lat d, row_lon d),
                            (latB, jsDiv (jsAdd (row_lon d) (row_lon e)) 2),
                            (row_lat e, row_lon e) ] ''green'' 6 (Some routeBSelected))
       \<and> latB < latA
       \<and> \<bar>latA - latB - 0.3\<bar> \<le> 1 / 2 ^ 44"
  using offsets_apart(1,2)[OF assms(4,5)]
    findRoute_ok_objs(3,4)[OF assms(1-3), where d = d and ds = ds and e = e and es = es]
  unfolding assms(6,7,8)
  by (simp add: routeAcoords_def routeBcoords_def midLat_def midLon_def placeOf_def)

theorem interior_latitudes_apart_witness:
  "fresh init \<and> trim ''Pokhara'' \<noteq> [] \<and> trim ''Kathmandu'' \<noteq> []
   \<and> \<bar>row_lat pokhara\<bar> \<le> 90 \<and> \<bar>row_lat kathmandu\<bar> \<le> 90
   \<and> jsSub (jsDiv (jsAdd (row_lat pokhara) (row_lat kathmandu)) 2) (toDouble 0.15)
       < jsAdd (jsDiv (jsAdd (row_lat pokhara) (row_lat kathmandu)) 2) (toDouble 0.15)
   \<and> \<bar>jsAdd (jsDiv (jsAdd (row_lat pokhara) (row_lat kathmandu)) 2) (toDouble 0.15)
       - jsSub (jsDiv (jsAdd (row_lat pokhara) (row_lat kathmandu)) 2) (toDouble 0.15) - 0.3\<bar>
       \<le> 1 / 2 ^ 44"
  using interior_latitudes_apart[OF fresh_init trim_names(1,2) example_valid(1,3) refl refl refl,
          of "[]" "[]"]
  by (simp add: fresh_init trim_names example_valid)

text \<open>
  Two inputs. From latitude 1 to latitude 1 the interior latitudes are the doubles
  printed as 1.15 and 0.85; their difference is not 0.3, nor is the double that the
  subtraction of the one from the other gives the double of the literal 0.3. From
  latitude \<open>2 ^ 53\<close> to the same, where the next double is 2 away, both interior
  latitudes are \<open>2 ^ 53\<close> again and the two paths are the same.
\<close>

theorem interior_latitudes_counterexample:
  "objs (findRoute ''Pokhara'' ''Kathmandu'' (Rows [unitRow]) (Rows [unitRow]) init) 3 =
        Some (Polyline [(1, 1), (5179139571476070 / 2 ^ 52, 1), (1, 1)]
                ''red'' 6 (Some routeASelected))
   \<and> objs (findRoute ''Pokhara'' ''Kathmandu'' (Rows [unitRow]) (Rows [unitRow]) init) 4 =
        Some (Polyline [(1, 1), (7656119366529843 / 2 ^ 53, 1), (1, 1)]
                ''green'' 6 (Some routeBSelected))
   \<and> 5179139571476070 / 2 ^ 52 - 7656119366529843 / 2 ^ 53 \<noteq> (0.3 :: real)
   \<and> jsSub (5179139571476070 / 2 ^ 52) (7656119366529843 / 2 ^ 53) \<noteq> toDouble 0.3
   \<and> objs (findRoute ''Pokhara'' ''Kathmandu'' (Rows [hugeRow]) (Rows [hugeRow]) init) 3 =
        Some (Polyline [(2 ^ 53, 0), (2 ^ 53, 0), (2 ^ 53, 0)] ''red'' 6 (Some routeASelected))
   \<and> objs (findRoute ''Pokhara'' ''Kathmandu'' (Rows [hugeRow]) (Rows [hugeRow]) init) 4 =
        Some (Polyline [(2 ^ 53, 0), (2 ^ 53, 0), (2 ^ 53, 0)] ''green'' 6 (Some routeBSelected))"
proof -
  have sub: "jsSub (5179139571476070 / 2 ^ 52) (7656119366529843 / 2 ^ 53)
               = 2702159776422297 / 2 ^ 53"
    unfolding jsSub_def
    by (subst toDouble_eval[where e = "- 2"]) (simp_all add: roundTiesToEven_def)
  have one: "routeAcoords (placeOf unitRow) (placeOf unitRow)
               = [(1, 1), (5179139571476070 / 2 ^ 52, 1), (1, 1)]"
            "routeBcoords (placeOf unitRow) (placeOf unitRow)
               = [(1, 1), (7656119366529843 / 2 ^ 53, 1), (1, 1)]"
    by (simp_all only: routeAcoords_def routeBcoords_def midLat_def midLon_def placeOf_def
          unitRow_def row.simps place.simps unit_mid unit_A unit_B)
  have far: "routeAcoords (placeOf hugeRow) (placeOf hugeRow) = [(2 ^ 53, 0), (2 ^ 53, 0), (2 ^ 53, 0)]"
            "routeBcoords (placeOf hugeRow) (placeOf hugeRow) = [(2 ^ 53, 0), (2 ^ 53, 0), (2 ^ 53, 0)]"
    by (simp_all only: routeAcoords_def routeBcoords_def midLat_def midLon_def placeOf_def
          hugeRow_def row.simps place.simps huge_mid huge_A huge_B zero_mid)
  show ?thesis
    using findRoute_ok_objs(3,4)[OF fresh_init trim_names(1,2), of unitRow "[]" unitRow "[]"]
          findRoute_ok_objs(3,4)[OF fresh_init trim_names(1,2), of hugeRow "[]" hugeRow "[]"]
    unfolding init_handles one far sub toDouble_03
    by simp
qed

end
